theory Spec2Isabelle
  imports Complex_Main
begin

section \<open>JavaScript numbers, dates and strings\<close>

text \<open>
  The calculation core works on JavaScript \<open>number\<close>s.  They are modelled as exact
  rationals: every finite double is a rational, and the operations below are the exact
  counterparts of the IEEE operations.  \<open>NaN\<close>, the infinities and the rounding error of
  binary floating point are outside the model.  Where the doubles of the code land on
  the other side of a rounding tie or of a tolerance bound, the exact value and the
  code differ: a product such as \<open>1001 * 0.015\<close> is a hair below the half cent that
  the exact product hits, two amounts exactly one cent apart differ by a hair less than
  0.01 in doubles, and a remainder of hours may carry the dust of a subtraction.  The
  figures of the worked examples are the same in both.

  A \<open>Date\<close> is modelled by its time value, the integer number of milliseconds since the
  epoch (\<open>getTime()\<close>); comparing two dates compares their time values.  An optional
  field (\<open>x?: T\<close>) is an \<open>option\<close>.
\<close>

type_synonym number = rat
type_synonym Date = int

definition Math_floor :: "number \<Rightarrow> int" where
  "Math_floor x = \<lfloor>x\<rfloor>"

text \<open>\<open>Math.round\<close> rounds to the nearest integer, a tie going towards \<open>+\<infinity>\<close>.\<close>

definition Math_round :: "number \<Rightarrow> number" where
  "Math_round x = of_int \<lfloor>x + 1 / 2\<rfloor>"

text \<open>
  The remainder operator \<open>a % b\<close>: the quotient is truncated towards zero, so the result
  has the sign of the dividend.  (\<open>b = 0\<close> gives \<open>NaN\<close> in JavaScript; the code below only
  divides by the constant 24.)
\<close>

definition js_rem :: "number \<Rightarrow> number \<Rightarrow> number" where
  "js_rem a b = a - b * of_int (if 0 \<le> a / b then \<lfloor>a / b\<rfloor> else \<lceil>a / b\<rceil>)"

subsection \<open>Decimal rendering\<close>

definition digit :: "nat \<Rightarrow> char" where
  "digit d = char_of (48 + d)"

text \<open>The decimal digits of a natural number, and the same padded with zeros to \<open>w\<close> places.\<close>

fun decimal :: "nat \<Rightarrow> string" where
  "decimal n = (if n < 10 then [digit n] else decimal (n div 10) @ [digit (n mod 10)])"

definition pad :: "nat \<Rightarrow> nat \<Rightarrow> string" where
  "pad w n = replicate (w - length (decimal n)) (CHR ''0'') @ decimal n"

text \<open>
  \<open>x.toFixed(2)\<close>: the sign, then the integer \<open>n\<close> for which \<open>n / 100\<close> is closest to
  \<open>|x|\<close> (the larger one on a tie), written with two decimals.
\<close>

definition toFixed2 :: "number \<Rightarrow> string" where
  "toFixed2 x =
     (let n = nat \<lfloor>\<bar>x\<bar> * 100 + 1 / 2\<rfloor>
      in (if x < 0 then ''-'' else []) @ pad 1 (n div 100) @ ''.'' @ pad 2 (n mod 100))"

subsection \<open>Calendar dates\<close>

text \<open>
  \<open>date.toISOString().split('T')[0]\<close> is the UTC calendar date of the instant,
  \<open>YYYY-MM-DD\<close>; years outside 0..9999 are written with a sign and six digits.
  The civil date is computed from the day number in the proleptic Gregorian calendar.
\<close>

definition msPerDay :: int where
  "msPerDay = 24 * 60 * 60 * 1000"

definition civil_from_days :: "int \<Rightarrow> int \<times> int \<times> int" where
  "civil_from_days dn =
     (let z = dn + 719468;
          era = z div 146097;
          doe = z mod 146097;
          yoe = (doe - doe div 1460 + doe div 36524 - doe div 146096) div 365;
          y = yoe + era * 400;
          doy = doe - (365 * yoe + yoe div 4 - yoe div 100);
          mp = (5 * doy + 2) div 153;
          d = doy - (153 * mp + 2) div 5 + 1;
          m = (if mp < 10 then mp + 3 else mp - 9)
      in (if m \<le> 2 then y + 1 else y, m, d))"

definition isoDate :: "Date \<Rightarrow> string" where
  "isoDate t =
     (case civil_from_days (t div msPerDay) of (y, m, d) \<Rightarrow>
        (if 0 \<le> y \<and> y \<le> 9999 then pad 4 (nat y)
         else (if y < 0 then ''-'' else ''+'') @ pad 6 (nat \<bar>y\<bar>))
        @ ''-'' @ pad 2 (nat m) @ ''-'' @ pad 2 (nat d))"

section \<open>The diet calculator (\<open>calculateDiet\<close>)\<close>

datatype DietMode = LIVE | PLANNED | CLOSED

record DietInput =
  startDatetime :: Date
  plannedEndDatetime :: "Date option"
  actualEndDatetime :: "Date option"
  mode :: DietMode
  dailyRate :: number
  currency :: string
  breakfastCount :: "number option"

record DietBreakdown =
  day :: int
  date :: string
  hours :: number
  multiplier :: number
  amount :: number

record BreakdownParams =
  fullDays :: int
  remainingHours :: number
  partialDayMultiplier :: number
  totalDays :: number
  dietBeforeBreakfast :: number
  breakfastCount :: number
  breakfastDeduction :: number
  totalDiet :: number
  currency :: string
  dailyRate :: number

text \<open>
  The \<open>breakdown\<close> field is a text for the user.  It is either the fixed message of the
  zero result or the text that \<open>buildPolishBreakdown\<close> renders from its parameter
  record; the rendering itself (formatting of numbers into a Polish sentence) is not
  modelled, the parameters it is rendered from are kept.
\<close>

datatype BreakdownText = Message string | PolishBreakdown BreakdownParams

record DietResult =
  fullDays :: int
  partialDay :: number
  partialDayMultiplier :: number
  totalDays :: number
  dietBeforeBreakfast :: number
  breakfastDeduction :: number
  totalDiet :: number
  currency :: string
  breakdown :: BreakdownText
  detailedBreakdown :: "DietBreakdown list"
  endDatetime :: Date
  isLive :: bool

datatype error = Error string

text \<open>The helper that \<open>calculateDiet\<close> never calls: its second line has no \<open>return\<close>.\<close>

definition getPartialDayMultiplier :: "number \<Rightarrow> number" where
  "getPartialDayMultiplier h = (if h < 8 then 1 / 3 else 1)"

definition getMultiplierForHours :: "number \<Rightarrow> number" where
  "getMultiplierForHours h =
     (if h < 8 then 1 / 3
      else if h \<ge> 8 \<and> h < 12 then 1 / 2
      else 1)"

text \<open>
  The message of the zero result,
  \<open>Delegacja jeszcze sie nie zaczela lub ma zerowy czas trwania.\<close> with its Polish
  letters as UTF-8 bytes.
\<close>

definition notStartedMessage :: string where
  "notStartedMessage =
     ''Delegacja jeszcze si'' @ [CHR 0xC4, CHR 0x99] @ '' nie zacz'' @ [CHR 0xC4, CHR 0x99]
     @ [CHR 0xC5, CHR 0x82] @ ''a lub ma zerowy czas trwania.''"

text \<open>
  \<open>calculateDiet\<close> in two parts.  \<open>dietFor\<close> is the body of the function after its
  \<open>switch\<close>: it gets the end instant and the \<open>isLive\<close> flag that the \<open>switch\<close> has
  chosen.  \<open>calculateDiet\<close> itself is the \<open>switch\<close> on the mode followed by that body.
  Its first argument is the clock: the value \<open>new Date()\<close> returns when the function
  runs in LIVE mode.  A \<open>throw\<close> is the result \<open>Inl\<close>.
\<close>

definition dietFor :: "DietInput \<Rightarrow> Date \<Rightarrow> bool \<Rightarrow> DietResult" where
  "dietFor input endDt live =
    (let start = DietInput.startDatetime input;
         rate = DietInput.dailyRate input;
         cur = DietInput.currency input;
         bc = (case DietInput.breakfastCount input of None \<Rightarrow> 0 | Some b \<Rightarrow> b)
     in
     if endDt \<le> start then
       \<lparr> DietResult.fullDays = 0,
         partialDay = 0,
         DietResult.partialDayMultiplier = 0,
         DietResult.totalDays = 0,
         DietResult.dietBeforeBreakfast = 0,
         DietResult.breakfastDeduction = 0,
         DietResult.totalDiet = 0,
         DietResult.currency = cur,
         breakdown = Message notStartedMessage,
         detailedBreakdown = [],
         endDatetime = endDt,
         isLive = live \<rparr>
     else
       let totalMs = endDt - start;
           totalHours = of_int totalMs / (1000 * 60 * 60);
           fullDs = Math_floor (totalHours / 24);
           remHours = js_rem totalHours 24;
           pdm = getMultiplierForHours remHours;
           partialDayFraction = (if remHours > 0 then pdm else 0);
           totalDs = of_int fullDs + partialDayFraction;
           dietBefore = totalDs * rate;
           breakfastDeductionPerMeal = rate * (1 / 4);
           deduction = min (bc * breakfastDeductionPerMeal) dietBefore;
           total = max 0 (dietBefore - deduction);
           fullRows = map (\<lambda>d. \<lparr> day = int d + 1,
                                    date = isoDate (start + int d * 24 * 60 * 60 * 1000),
                                    hours = 24,
                                    multiplier = 1,
                                    amount = rate \<rparr>) [0 ..< nat fullDs];
           partialRows =
             (if remHours > 0 then
                [\<lparr> day = fullDs + 1,
                   date = isoDate (start + fullDs * 24 * 60 * 60 * 1000),
                   hours = Math_round (remHours * 10) / 10,
                   multiplier = pdm,
                   amount = rate * pdm \<rparr>]
              else []);
           text = PolishBreakdown
                   \<lparr> BreakdownParams.fullDays = fullDs,
                     remainingHours = remHours,
                     BreakdownParams.partialDayMultiplier = pdm,
                     BreakdownParams.totalDays = totalDs,
                     BreakdownParams.dietBeforeBreakfast = dietBefore,
                     BreakdownParams.breakfastCount = bc,
                     BreakdownParams.breakfastDeduction = deduction,
                     BreakdownParams.totalDiet = total,
                     BreakdownParams.currency = cur,
                     BreakdownParams.dailyRate = rate \<rparr>
       in
       \<lparr> DietResult.fullDays = fullDs,
         partialDay = Math_round (remHours * 10) / 10,
         DietResult.partialDayMultiplier = pdm,
         DietResult.totalDays = Math_round (totalDs * 100) / 100,
         DietResult.dietBeforeBreakfast = Math_round (dietBefore * 100) / 100,
         DietResult.breakfastDeduction = Math_round (deduction * 100) / 100,
         DietResult.totalDiet = Math_round (total * 100) / 100,
         DietResult.currency = cur,
         breakdown = text,
         detailedBreakdown = fullRows @ partialRows,
         endDatetime = endDt,
         isLive = live \<rparr>)"

definition calculateDiet :: "Date \<Rightarrow> DietInput \<Rightarrow> error + DietResult" where
  "calculateDiet now input =
    (case mode input of
       LIVE \<Rightarrow> Inr (dietFor input now True)
     | PLANNED \<Rightarrow>
         (case DietInput.plannedEndDatetime input of
            None \<Rightarrow> Inl (Error ''plannedEndDatetime required for PLANNED mode'')
          | Some e \<Rightarrow> Inr (dietFor input e False))
     | CLOSED \<Rightarrow>
         (case DietInput.actualEndDatetime input of
            None \<Rightarrow> Inl (Error ''actualEndDatetime required for CLOSED mode'')
          | Some e \<Rightarrow> Inr (dietFor input e False)))"

section \<open>The project balance (\<open>calculateProjectBalance\<close>)\<close>

text \<open>
  Strings are byte strings; \<open>toUpperCase\<close>, \<open>toLowerCase\<close> and \<open>trim\<close> are modelled on
  their ASCII part (letters \<open>a\<close>..\<open>z\<close>, and the ASCII white space).  Letters beyond
  ASCII keep their case and white space beyond ASCII (such as U+00A0) is not trimmed.
\<close>

definition toUpperCase :: "string \<Rightarrow> string" where
  "toUpperCase s =
     map (\<lambda>c. let n = (of_char c :: nat) in if 97 \<le> n \<and> n \<le> 122 then char_of (n - 32) else c) s"

definition toLowerCase :: "string \<Rightarrow> string" where
  "toLowerCase s =
     map (\<lambda>c. let n = (of_char c :: nat) in if 65 \<le> n \<and> n \<le> 90 then char_of (n + 32) else c) s"

text \<open>\<open>lines.join(sep)\<close>\<close>

fun join :: "string \<Rightarrow> string list \<Rightarrow> string" where
  "join sep [] = []"
| "join sep [x] = x"
| "join sep (x # y # ys) = x @ sep @ join sep (y # ys)"

definition round2 :: "number \<Rightarrow> number" where
  "round2 v = Math_round (v * 100) / 100"

record TransactionSummary =
  id' :: string
  date :: Date
  amount :: number
  category :: string
  isPrivate :: bool
  excludedFromProject :: bool

record AdvanceSummary =
  id' :: string
  date :: Date
  amount :: number

datatype ProjectStatus = ACTIVE | CLOSED | DRAFT

record Project =
  startDatetime :: Date
  plannedEndDatetime :: "Date option"
  actualEndDatetime :: "Date option"
  status :: ProjectStatus
  dietAmountSnapshot :: number
  hotelLimitSnapshot :: number
  currency :: string
  breakfastCount :: number

record ProjectBalanceInput =
  project :: Project
  transactions :: "TransactionSummary list"
  advances :: "AdvanceSummary list"

record CategoryTotals =
  FOOD :: number
  TRANSPORT :: number
  HOTEL :: number
  PARKING :: number
  FUEL :: number
  OTHER :: number

datatype HotelStatus = within_limit | over_limit | no_hotel

record ProjectBalanceResult =
  advancesTotal :: number
  expensesTotal :: number
  categoryTotals :: CategoryTotals
  hotelCombined :: number
  hotelLimit :: number
  hotelStatus :: HotelStatus
  hotelOverage :: number
  diet :: DietResult
  balance :: number
  balanceDescription :: string
  averageDailyExpense :: number
  transactionCount :: nat

definition getDietMode :: "ProjectStatus \<Rightarrow> Date option \<Rightarrow> DietMode" where
  "getDietMode st actualEnd =
     (if st = ProjectStatus.CLOSED \<and> actualEnd \<noteq> None then DietMode.CLOSED
      else if st = ACTIVE then LIVE
      else PLANNED)"

text \<open>The argument \<open>now\<close> is the value of \<open>new Date()\<close> read by \<open>calculateTripHours\<close>.\<close>

definition calculateTripHours :: "Date \<Rightarrow> Project \<Rightarrow> number" where
  "calculateTripHours now p =
     (let endDate =
            (case (status p, Project.actualEndDatetime p) of
               (ProjectStatus.CLOSED, Some actualEnd) \<Rightarrow> actualEnd
             | _ \<Rightarrow>
                 (case Project.plannedEndDatetime p of
                    Some plannedEnd \<Rightarrow> (if status p = ACTIVE then now else plannedEnd)
                  | None \<Rightarrow> now));
          ms = endDate - Project.startDatetime p
      in max 0 (of_int ms / (1000 * 60 * 60)))"

definition buildBalanceDescription ::
    "number \<Rightarrow> string \<Rightarrow> number \<times> number \<times> number \<Rightarrow> string" where
  "buildBalanceDescription bal cur parts =
     (case parts of (advTotal, expTotal, dietTotal) \<Rightarrow>
      let sign = (if bal \<ge> 0 then ''+'' else []);
          st = (if bal > 0 then
                  [CHR 0xE2, CHR 0x9C, CHR 0x85] @ '' Firma dop'' @ [CHR 0xC5, CHR 0x82]
                  @ ''aci Ci do wyp'' @ [CHR 0xC5, CHR 0x82] @ ''aty''
                else if bal < 0 then
                  [CHR 0xE2, CHR 0x9D, CHR 0x8C] @ '' Musisz zwr'' @ [CHR 0xC3, CHR 0xB3]
                  @ ''ci'' @ [CHR 0xC4, CHR 0x87] @ '' firmie''
                else [CHR 0xE2, CHR 0x9C, CHR 0x93] @ '' Rozliczenie zerowe'')
      in join [CHR 0x0A]
           [''Zaliczki: +'' @ toFixed2 advTotal @ '' '' @ cur,
            ''Wydatki: -'' @ toFixed2 expTotal @ '' '' @ cur,
            ''Dieta: +'' @ toFixed2 dietTotal @ '' '' @ cur,
            concat (replicate 20 [CHR 0xE2, CHR 0x94, CHR 0x80]),
            ''SALDO: '' @ sign @ toFixed2 bal @ '' '' @ cur,
            st])"

text \<open>
  One round of the loop over the valid transactions: the upper-cased category selects
  the total to raise; a category that is none of the six keys goes to \<open>OTHER\<close>.
\<close>

definition addToCategory :: "CategoryTotals \<Rightarrow> TransactionSummary \<Rightarrow> CategoryTotals" where
  "addToCategory ct t =
     (let cat = toUpperCase (category t); a = TransactionSummary.amount t in
      if cat = ''FOOD'' then ct\<lparr>FOOD := round2 (FOOD ct + a)\<rparr>
      else if cat = ''TRANSPORT'' then ct\<lparr>TRANSPORT := round2 (TRANSPORT ct + a)\<rparr>
      else if cat = ''HOTEL'' then ct\<lparr>HOTEL := round2 (HOTEL ct + a)\<rparr>
      else if cat = ''PARKING'' then ct\<lparr>PARKING := round2 (PARKING ct + a)\<rparr>
      else if cat = ''FUEL'' then ct\<lparr>FUEL := round2 (FUEL ct + a)\<rparr>
      else if cat = ''OTHER'' then ct\<lparr>OTHER := round2 (OTHER ct + a)\<rparr>
      else ct\<lparr>OTHER := round2 (OTHER ct + a)\<rparr>)"

text \<open>
  \<open>calculateProjectBalance\<close>.  \<open>now\<^sub>1\<close> is the clock read inside \<open>calculateDiet\<close>,
  \<open>now\<^sub>2\<close> the later one read by \<open>calculateTripHours\<close>.  An exception of
  \<open>calculateDiet\<close> is not caught, so it is the result.
\<close>

definition calculateProjectBalance ::
    "Date \<Rightarrow> Date \<Rightarrow> ProjectBalanceInput \<Rightarrow> error + ProjectBalanceResult" where
  "calculateProjectBalance now1 now2 input =
    (let p = project input;
         validTransactions =
           filter (\<lambda>t. \<not> isPrivate t \<and> \<not> excludedFromProject t) (transactions input);
         advTotal = round2 (foldl (\<lambda>sum a. sum + AdvanceSummary.amount a) 0 (advances input));
         ct = foldl addToCategory
                \<lparr> FOOD = 0, TRANSPORT = 0, HOTEL = 0, PARKING = 0, FUEL = 0, OTHER = 0 \<rparr>
                validTransactions;
         expTotal = round2 (foldl (\<lambda>sum v. sum + v) 0
                      [FOOD ct, TRANSPORT ct, HOTEL ct, PARKING ct, FUEL ct, OTHER ct]);
         hotelComb = round2 (HOTEL ct + PARKING ct);
         hotelLim = hotelLimitSnapshot p;
         (hotelStat, hotelOver) =
           (if hotelComb > 0 then
              (if hotelComb \<le> hotelLim then (within_limit, 0)
               else (over_limit, round2 (hotelComb - hotelLim)))
            else (no_hotel, 0));
         dietMode = getDietMode (status p) (Project.actualEndDatetime p)
     in
     case calculateDiet now1
            \<lparr> DietInput.startDatetime = Project.startDatetime p,
              DietInput.plannedEndDatetime = Project.plannedEndDatetime p,
              DietInput.actualEndDatetime = Project.actualEndDatetime p,
              mode = dietMode,
              DietInput.dailyRate = dietAmountSnapshot p,
              DietInput.currency = Project.currency p,
              DietInput.breakfastCount = Some (Project.breakfastCount p) \<rparr> of
       Inl e \<Rightarrow> Inl e
     | Inr dietRes \<Rightarrow>
         let bal = round2 (advTotal - expTotal + DietResult.totalDiet dietRes);
             descr = buildBalanceDescription bal (Project.currency p)
                       (advTotal, expTotal, DietResult.totalDiet dietRes);
             tripHours = calculateTripHours now2 p;
             tripDays = tripHours / 24;
             avg = (if tripDays > 0 then round2 (expTotal / tripDays) else 0)
         in Inr \<lparr> advancesTotal = advTotal,
                  expensesTotal = expTotal,
                  categoryTotals = ct,
                  hotelCombined = hotelComb,
                  hotelLimit = hotelLim,
                  hotelStatus = hotelStat,
                  hotelOverage = hotelOver,
                  diet = dietRes,
                  balance = bal,
                  balanceDescription = descr,
                  averageDailyExpense = avg,
                  transactionCount = length validTransactions \<rparr>)"

section \<open>The net salary (\<open>calculateSalaryNet\<close>)\<close>

record TaxRates =
  pensionRate :: number
  disabilityRate :: number
  sicknessRate :: number
  healthInsuranceRate :: number
  incomeTaxRate :: number
  taxFreeMonthly :: number
  costOfIncome :: number
  maxCostOfIncome :: number

definition TAX_RATES_2024_2025 :: TaxRates where
  "TAX_RATES_2024_2025 =
     \<lparr> pensionRate = 976 / 10000,
       disabilityRate = 15 / 1000,
       sicknessRate = 245 / 10000,
       healthInsuranceRate = 9 / 100,
       incomeTaxRate = 12 / 100,
       taxFreeMonthly = 300,
       costOfIncome = 20 / 100,
       maxCostOfIncome = 250 \<rparr>"

record SalaryInput =
  brutto :: number
  voluntarySocialSecurity :: bool
  ppkEnabled :: bool
  ppkPercentage :: number
  taxRates :: "TaxRates option"

text \<open>
  The fifteen figures of a salary calculation.  The result object carries them as its
  own fields and once more in its \<open>breakdown\<close> object, from which the description is
  rendered.
\<close>

record SalaryFigures =
  brutto :: number
  netto :: number
  pensionContribution :: number
  disabilityContribution :: number
  sicknessContribution :: number
  totalSocialSecurity :: number
  healthInsuranceBase :: number
  healthInsurance :: number
  incomeBase :: number
  costOfIncome :: number
  taxBase :: number
  taxBeforeDeduction :: number
  taxFreeDeduction :: number
  incomeTax :: number
  ppkEmployee :: number

record SalaryResult = SalaryFigures +
  breakdown :: SalaryFigures
  description :: string

definition buildSalaryDescription :: "SalaryFigures \<Rightarrow> bool \<Rightarrow> bool \<Rightarrow> string" where
  "buildSalaryDescription b voluntarySS ppk =
     join [CHR 0x0A]
       ([''Wynagrodzenie brutto: '' @ toFixed2 (SalaryFigures.brutto b) @ '' PLN'',
         [],
         ''SK'' @ [CHR 0xC5, CHR 0x81] @ ''ADKI ZUS:'',
         ''  Emerytalna (9.76%): -'' @ toFixed2 (pensionContribution b) @ '' PLN'',
         ''  Rentowa (1.5%): -'' @ toFixed2 (disabilityContribution b) @ '' PLN'']
        @ (if voluntarySS
           then [''  Chorobowa (2.45%): -'' @ toFixed2 (sicknessContribution b) @ '' PLN'']
           else [])
        @ [''  '' @ [CHR 0xC5, CHR 0x81, CHR 0xC4, CHR 0x85] @ ''cznie ZUS: -''
             @ toFixed2 (totalSocialSecurity b) @ '' PLN'',
           [],
           ''UBEZPIECZENIE ZDROWOTNE:'',
           ''  Podstawa: '' @ toFixed2 (healthInsuranceBase b) @ '' PLN'',
           ''  Sk'' @ [CHR 0xC5, CHR 0x82] @ ''adka (9%): -'' @ toFixed2 (healthInsurance b)
             @ '' PLN'',
           [],
           ''PODATEK DOCHODOWY:'',
           ''  Podstawa przychodu: '' @ toFixed2 (incomeBase b) @ '' PLN'',
           ''  Koszty uzyskania (20%, max 250): -''
             @ toFixed2 (SalaryFigures.costOfIncome b) @ '' PLN'',
           ''  Podstawa opodatkowania: '' @ toFixed2 (taxBase b) @ '' PLN'',
           ''  Podatek (12%): '' @ toFixed2 (taxBeforeDeduction b) @ '' PLN'',
           ''  Kwota wolna: -'' @ toFixed2 (taxFreeDeduction b) @ '' PLN'',
           ''  Podatek do zap'' @ [CHR 0xC5, CHR 0x82] @ ''aty: -'' @ toFixed2 (incomeTax b)
             @ '' PLN'']
        @ (if ppk then [[], ''PPK (pracownik): -'' @ toFixed2 (ppkEmployee b) @ '' PLN'']
           else [])
        @ [[], ''WYNAGRODZENIE NETTO: '' @ toFixed2 (netto b) @ '' PLN''])"

definition calculateSalaryNet :: "SalaryInput \<Rightarrow> SalaryResult" where
  "calculateSalaryNet input =
    (let gross = SalaryInput.brutto input;
         voluntary = voluntarySocialSecurity input;
         ppk = ppkEnabled input;
         rates = (case taxRates input of None \<Rightarrow> TAX_RATES_2024_2025 | Some r \<Rightarrow> r);
         pension = round2 (gross * pensionRate rates);
         disability = round2 (gross * disabilityRate rates);
         sickness = (if voluntary then round2 (gross * sicknessRate rates) else 0);
         totalSocial = pension + disability + sickness;
         healthBase = round2 (gross - totalSocial);
         health = round2 (healthBase * healthInsuranceRate rates);
         incBase = round2 (gross - totalSocial);
         rawCostOfIncome = round2 (incBase * TaxRates.costOfIncome rates);
         cost = min rawCostOfIncome (maxCostOfIncome rates);
         tBase = Math_round (max 0 (incBase - cost));
         taxBefore = round2 (tBase * incomeTaxRate rates);
         taxFree = min taxBefore (taxFreeMonthly rates);
         tax = max 0 (round2 (taxBefore - taxFree));
         ppkEmp = (if ppk then round2 (gross * (ppkPercentage input / 100)) else 0);
         net = round2 (gross - totalSocial - health - tax - ppkEmp);
         figures =
           \<lparr> SalaryFigures.brutto = gross,
             netto = net,
             pensionContribution = pension,
             disabilityContribution = disability,
             sicknessContribution = sickness,
             totalSocialSecurity = totalSocial,
             healthInsuranceBase = healthBase,
             healthInsurance = health,
             incomeBase = incBase,
             SalaryFigures.costOfIncome = cost,
             taxBase = tBase,
             taxBeforeDeduction = taxBefore,
             taxFreeDeduction = taxFree,
             incomeTax = tax,
             ppkEmployee = ppkEmp \<rparr>
     in SalaryFigures.extend figures
          \<lparr> breakdown = figures,
            description = buildSalaryDescription figures voluntary ppk \<rparr>)"

subsection \<open>The caller: project creation\<close>

text \<open>
  The handler of \<open>POST /api/v1/projects\<close> loads the user's tax settings, the contract
  type among them, and computes the net salary when the request carries a gross salary
  (\<open>if (body.salaryBrutto)\<close>: present and not zero).  \<open>createProjectSalary\<close> is that
  step: the pair of gross and net that the handler then encrypts and stores, if any.
\<close>

datatype ContractType = EMPLOYMENT | CIVIL_CONTRACT | B2B | OTHER

record UserTaxSettings =
  contractType :: ContractType
  voluntarySocialSecurity :: bool
  ppkEnabled :: bool
  ppkPercentage :: number

definition createProjectSalary :: "UserTaxSettings \<Rightarrow> number option \<Rightarrow> (number \<times> number) option" where
  "createProjectSalary user salaryBrutto =
     (case salaryBrutto of
        None \<Rightarrow> None
      | Some b \<Rightarrow>
          if b = 0 then None
          else
            let salaryCalc = calculateSalaryNet
                  \<lparr> SalaryInput.brutto = b,
                    SalaryInput.voluntarySocialSecurity =
                      UserTaxSettings.voluntarySocialSecurity user,
                    SalaryInput.ppkEnabled = UserTaxSettings.ppkEnabled user,
                    SalaryInput.ppkPercentage = UserTaxSettings.ppkPercentage user,
                    taxRates = Some TAX_RATES_2024_2025 \<rparr>
            in Some (b, netto salaryCalc))"

section \<open>The duplicate detector (\<open>detectDuplicateDocument\<close>)\<close>

datatype DuplicateConfidence = exact | high | medium | low

datatype SuggestedAction = merge | add_new | review

record DocumentFingerprint =
  invoiceNumber :: "string option"
  amount :: "number option"
  date :: "Date option"
  vendorName :: "string option"

record ExistingDocument =
  id' :: string
  fingerprint :: "string option"
  invoiceNumber :: "string option"
  detectedAmount :: "number option"
  detectedDate :: "Date option"
  vendorName :: "string option"
  originalFilename :: string

record DuplicateMatch =
  id' :: string
  invoiceNumber :: "string option"
  amount :: "number option"
  date :: "Date option"
  vendorName :: "string option"
  originalFilename :: string
  similarity :: number
  matchReason :: string

record DuplicateCheckResult =
  isDuplicate :: bool
  confidence :: "DuplicateConfidence option"
  matchedDocuments :: "DuplicateMatch list"
  suggestedAction :: "SuggestedAction option"

definition isSpace :: "char \<Rightarrow> bool" where
  "isSpace c = (of_char c \<in> {9, 10, 11, 12, 13, 32 :: nat})"

definition trim :: "string \<Rightarrow> string" where
  "trim s = rev (dropWhile isSpace (rev (dropWhile isSpace s)))"

definition normalizeDate :: "Date \<Rightarrow> string" where
  "normalizeDate d = isoDate d"

text \<open>
  The digest is the library's \<open>crypto.createHash('sha256')\<close>, rendered in hexadecimal;
  it is a parameter of the model.
\<close>

definition generateDocumentFingerprint ::
    "(string \<Rightarrow> string) \<Rightarrow> DocumentFingerprint \<Rightarrow> string" where
  "generateDocumentFingerprint sha256 doc =
     (let normalized =
            join ''|''
              [toLowerCase (trim (case DocumentFingerprint.invoiceNumber doc of
                                    None \<Rightarrow> [] | Some s \<Rightarrow> s)),
               toFixed2 (case DocumentFingerprint.amount doc of None \<Rightarrow> 0 | Some a \<Rightarrow> a),
               (case DocumentFingerprint.date doc of
                  Some d \<Rightarrow> normalizeDate d | None \<Rightarrow> [])]
      in sha256 normalized)"

definition datesWithinDays :: "Date \<Rightarrow> Date \<Rightarrow> number \<Rightarrow> bool" where
  "datesWithinDays date1 date2 days =
     (let diffMs = \<bar>date1 - date2\<bar>;
          diffDays = of_int diffMs / (1000 * 60 * 60 * 24)
      in diffDays \<le> days)"

definition amountsMatch :: "number \<Rightarrow> number \<Rightarrow> bool" where
  "amountsMatch amount1 amount2 = (\<bar>amount1 - amount2\<bar> < 1 / 100)"

definition getSimilarityConfidence :: "number \<Rightarrow> DuplicateConfidence" where
  "getSimilarityConfidence s =
     (if s \<ge> 99 / 100 then exact
      else if s \<ge> 85 / 100 then high
      else if s \<ge> 70 / 100 then medium
      else low)"

text \<open>
  The fingerprint of the new document, made only \<open>if enough data\<close>: the three fields
  must be truthy, that is an invoice number that is present and not the empty string,
  an amount that is present and not zero, and a date that is present.
\<close>

definition newFingerprintOf ::
    "(string \<Rightarrow> string) \<Rightarrow> DocumentFingerprint \<Rightarrow> string option" where
  "newFingerprintOf sha256 newDoc =
     (if (case DocumentFingerprint.invoiceNumber newDoc of None \<Rightarrow> False | Some s \<Rightarrow> s \<noteq> [])
         \<and> (case DocumentFingerprint.amount newDoc of None \<Rightarrow> False | Some a \<Rightarrow> a \<noteq> 0)
         \<and> DocumentFingerprint.date newDoc \<noteq> None
      then Some (generateDocumentFingerprint sha256 newDoc)
      else None)"

text \<open>
  The body of the loop over the existing documents: the four strategies in their
  \<open>if\<close>/\<open>else if\<close> order, giving the reason, similarity and confidence of the first
  one that fires.
\<close>

definition matchExisting ::
    "string option \<Rightarrow> DocumentFingerprint \<Rightarrow> ExistingDocument
       \<Rightarrow> (string \<times> number \<times> DuplicateConfidence) option" where
  "matchExisting newFingerprint newDoc existing =
     (if (case newFingerprint of None \<Rightarrow> False | Some f \<Rightarrow> f \<noteq> [])
         \<and> (case fingerprint existing of None \<Rightarrow> False | Some g \<Rightarrow> g \<noteq> [])
         \<and> newFingerprint = fingerprint existing
      then Some (''Identyczny dokument (faktura + kwota + data)'', 1, exact)
      else if (case (DocumentFingerprint.amount newDoc, DocumentFingerprint.date newDoc,
                     detectedAmount existing, detectedDate existing) of
                 (Some a, Some d, Some ea, Some ed) \<Rightarrow>
                   amountsMatch a ea \<and> normalizeDate d = normalizeDate ed
               | _ \<Rightarrow> False)
      then Some (''Identyczna kwota i data'', 92 / 100, high)
      else if (case (DocumentFingerprint.amount newDoc, DocumentFingerprint.date newDoc,
                     detectedAmount existing, detectedDate existing) of
                 (Some a, Some d, Some ea, Some ed) \<Rightarrow>
                   amountsMatch a ea \<and> datesWithinDays d ed 1
               | _ \<Rightarrow> False)
      then Some (''Identyczna kwota, data '' @ [CHR 0xC2, CHR 0xB1] @ ''1 dzie''
                 @ [CHR 0xC5, CHR 0x84], 78 / 100, medium)
      else if (case (DocumentFingerprint.invoiceNumber newDoc,
                     ExistingDocument.invoiceNumber existing) of
                 (Some n, Some e) \<Rightarrow>
                   n \<noteq> [] \<and> e \<noteq> [] \<and> toLowerCase (trim n) = toLowerCase (trim e)
               | _ \<Rightarrow> False)
      then Some (''Identyczny numer faktury'', 6 / 10, low)
      else None)"

fun collectMatches ::
    "string option \<Rightarrow> DocumentFingerprint \<Rightarrow> ExistingDocument list \<Rightarrow> DuplicateMatch list" where
  "collectMatches newFingerprint newDoc [] = []"
| "collectMatches newFingerprint newDoc (existing # rest) =
     (case matchExisting newFingerprint newDoc existing of
        None \<Rightarrow> collectMatches newFingerprint newDoc rest
      | Some (reason, sim, conf) \<Rightarrow>
          \<lparr> DuplicateMatch.id' = ExistingDocument.id' existing,
            DuplicateMatch.invoiceNumber = ExistingDocument.invoiceNumber existing,
            DuplicateMatch.amount = detectedAmount existing,
            DuplicateMatch.date = detectedDate existing,
            DuplicateMatch.vendorName = ExistingDocument.vendorName existing,
            DuplicateMatch.originalFilename = ExistingDocument.originalFilename existing,
            similarity = sim,
            matchReason = reason \<rparr>
          # collectMatches newFingerprint newDoc rest)"

text \<open>
  \<open>matches.sort((a, b) => b.similarity - a.similarity)\<close>: \<open>Array.prototype.sort\<close> is a
  stable sort, here by descending similarity, which is the stable insertion sort on the
  negated similarity.
\<close>

definition sortBySimilarity :: "DuplicateMatch list \<Rightarrow> DuplicateMatch list" where
  "sortBySimilarity ms = sort_key (\<lambda>m. - similarity m) ms"

definition detectDuplicateDocument ::
    "(string \<Rightarrow> string) \<Rightarrow> DocumentFingerprint \<Rightarrow> ExistingDocument list
       \<Rightarrow> DuplicateCheckResult" where
  "detectDuplicateDocument sha256 newDoc existingDocs =
     (if length existingDocs = 0 then
        \<lparr> isDuplicate = False, confidence = None, matchedDocuments = [],
          suggestedAction = None \<rparr>
      else
        let newFingerprint = newFingerprintOf sha256 newDoc;
            matches = sortBySimilarity (collectMatches newFingerprint newDoc existingDocs)
        in case matches of
             [] \<Rightarrow> \<lparr> isDuplicate = False, confidence = None, matchedDocuments = [],
                     suggestedAction = None \<rparr>
           | bestMatch # others \<Rightarrow>
               let conf = getSimilarityConfidence (similarity bestMatch);
                   action = (if conf = exact \<or> conf = high then merge
                             else if conf = medium then review
                             else add_new)
               in \<lparr> isDuplicate = True, confidence = Some conf, matchedDocuments = matches,
                    suggestedAction = Some action \<rparr>)"

section \<open>Scenario inputs\<close>

text \<open>
  The trip of the worked example: from 2024-01-10T08:00Z to 2024-01-12T14:00Z, daily rate
  45 PLN, one breakfast.  Both end fields hold the end instant, so the trip can be given
  in every mode (in LIVE mode the clock is the end instant).
\<close>

definition tripStart :: Date where
  "tripStart = 1704873600000"

definition tripEnd :: Date where
  "tripEnd = 1705068000000"

definition scenarioTrip :: "DietMode \<Rightarrow> DietInput" where
  "scenarioTrip m =
     \<lparr> DietInput.startDatetime = tripStart,
       DietInput.plannedEndDatetime = Some tripEnd,
       DietInput.actualEndDatetime = Some tripEnd,
       mode = m,
       DietInput.dailyRate = 45,
       DietInput.currency = ''PLN'',
       DietInput.breakfastCount = Some 1 \<rparr>"

text \<open>A planned trip of \<open>n\<close> hours from the same start, at 45 PLN a day, no breakfast.\<close>

definition tripOfHours :: "int \<Rightarrow> DietInput" where
  "tripOfHours n =
     \<lparr> DietInput.startDatetime = tripStart,
       DietInput.plannedEndDatetime = Some (tripStart + n * (1000 * 60 * 60)),
       DietInput.actualEndDatetime = None,
       mode = PLANNED,
       DietInput.dailyRate = 45,
       DietInput.currency = ''PLN'',
       DietInput.breakfastCount = None \<rparr>"

text \<open>
  The project of the same trip, still planned, with its hotel limit as a parameter; three
  transactions, one of them private; one advance of 500.
\<close>

definition scenarioProject :: "number \<Rightarrow> Project" where
  "scenarioProject limit =
     \<lparr> Project.startDatetime = tripStart,
       Project.plannedEndDatetime = Some tripEnd,
       Project.actualEndDatetime = None,
       status = DRAFT,
       dietAmountSnapshot = 45,
       hotelLimitSnapshot = limit,
       Project.currency = ''PLN'',
       Project.breakfastCount = 1 \<rparr>"

definition scenarioTransactions :: "TransactionSummary list" where
  "scenarioTransactions =
     [\<lparr> TransactionSummary.id' = ''t1'', TransactionSummary.date = tripStart,
        TransactionSummary.amount = 300, category = ''HOTEL'',
        isPrivate = False, excludedFromProject = False \<rparr>,
      \<lparr> TransactionSummary.id' = ''t2'', TransactionSummary.date = tripStart,
        TransactionSummary.amount = 50, category = ''food'',
        isPrivate = False, excludedFromProject = False \<rparr>,
      \<lparr> TransactionSummary.id' = ''t3'', TransactionSummary.date = tripStart,
        TransactionSummary.amount = 80, category = ''FOOD'',
        isPrivate = True, excludedFromProject = False \<rparr>]"

definition scenarioAdvances :: "AdvanceSummary list" where
  "scenarioAdvances =
     [\<lparr> AdvanceSummary.id' = ''a1'', AdvanceSummary.date = tripStart,
        AdvanceSummary.amount = 500 \<rparr>]"

definition scenarioBalanceInput :: "number \<Rightarrow> TransactionSummary list \<Rightarrow> ProjectBalanceInput" where
  "scenarioBalanceInput limit ts =
     \<lparr> project = scenarioProject limit, transactions = ts, advances = scenarioAdvances \<rparr>"

text \<open>
  The salary example: gross 5000, no voluntary sickness insurance, no PPK; and a user with
  these settings and a given contract type.
\<close>

definition scenarioSalaryInput :: "number \<Rightarrow> TaxRates option \<Rightarrow> SalaryInput" where
  "scenarioSalaryInput pct rates =
     \<lparr> SalaryInput.brutto = 5000,
       SalaryInput.voluntarySocialSecurity = False,
       SalaryInput.ppkEnabled = False,
       SalaryInput.ppkPercentage = pct,
       taxRates = rates \<rparr>"

definition scenarioUser :: "ContractType \<Rightarrow> UserTaxSettings" where
  "scenarioUser ct =
     \<lparr> contractType = ct,
       UserTaxSettings.voluntarySocialSecurity = False,
       UserTaxSettings.ppkEnabled = False,
       UserTaxSettings.ppkPercentage = 2 \<rparr>"

text \<open>
  Receipts: the instants 2024-03-01T00:00Z and 2024-03-02T00:00Z, a new document with an
  amount and a date, and a stored document with a detected amount and date.
\<close>

definition marchFirst :: Date where
  "marchFirst = 1709251200000"

definition marchSecond :: Date where
  "marchSecond = 1709337600000"

definition scenarioReceipt :: "string option \<Rightarrow> number \<Rightarrow> Date \<Rightarrow> DocumentFingerprint" where
  "scenarioReceipt invNo a d =
     \<lparr> DocumentFingerprint.invoiceNumber = invNo,
       DocumentFingerprint.amount = Some a,
       DocumentFingerprint.date = Some d,
       DocumentFingerprint.vendorName = None \<rparr>"

definition storedReceipt ::
    "string \<Rightarrow> string option \<Rightarrow> string option \<Rightarrow> number \<Rightarrow> Date \<Rightarrow> ExistingDocument" where
  "storedReceipt i fp invNo a d =
     \<lparr> ExistingDocument.id' = i,
       fingerprint = fp,
       ExistingDocument.invoiceNumber = invNo,
       detectedAmount = Some a,
       detectedDate = Some d,
       ExistingDocument.vendorName = None,
       ExistingDocument.originalFilename = ''receipt.pdf'' \<rparr>"

section \<open>Evaluation of rational arithmetic\<close>

declare decimal.simps [simp del]

lemma floor_rat_numeral [simp]:
  "\<lfloor>numeral a / numeral b :: rat\<rfloor> = numeral a div numeral b"
  using floor_divide_of_int_eq [of "numeral a" "numeral b", where ?'a = rat] by simp

lemma floor_rat_one_divide [simp]:
  "\<lfloor>1 / numeral b :: rat\<rfloor> = 1 div numeral b"
  using floor_divide_of_int_eq [of 1 "numeral b", where ?'a = rat] by simp

lemma floor_rat_neg_numeral [simp]:
  "\<lfloor>- (numeral a / numeral b) :: rat\<rfloor> = - numeral a div numeral b"
  using floor_divide_of_int_eq [of "- numeral a" "numeral b", where ?'a = rat] by simp

section \<open>Properties of the diet calculator\<close>

lemma dietFor_notStarted:
  "e \<le> DietInput.startDatetime input \<Longrightarrow>
   dietFor input e live =
     \<lparr> DietResult.fullDays = 0, partialDay = 0, DietResult.partialDayMultiplier = 0,
       DietResult.totalDays = 0, DietResult.dietBeforeBreakfast = 0,
       DietResult.breakfastDeduction = 0, DietResult.totalDiet = 0,
       DietResult.currency = DietInput.currency input,
       breakdown = Message notStartedMessage, detailedBreakdown = [],
       endDatetime = e, isLive = live \<rparr>"
  by (simp add: dietFor_def)

lemma dietFor_endDatetime: "endDatetime (dietFor input e live) = e"
  by (simp add: dietFor_def Let_def)

lemma dietFor_isLive: "isLive (dietFor input e live) = live"
  by (simp add: dietFor_def Let_def)

lemma dietFor_started:
  assumes "DietInput.startDatetime input < e"
  defines "h \<equiv> rat_of_int (e - DietInput.startDatetime input) / 3600000"
  defines "r \<equiv> js_rem h 24"
  defines "td \<equiv> of_int (Math_floor (h / 24)) + (if r > 0 then getMultiplierForHours r else 0)"
  defines "rate \<equiv> DietInput.dailyRate input"
  defines "bc \<equiv> (case DietInput.breakfastCount input of None \<Rightarrow> 0 | Some b \<Rightarrow> b)"
  shows "DietResult.fullDays (dietFor input e live) = Math_floor (h / 24)"
    and "partialDay (dietFor input e live) = Math_round (r * 10) / 10"
    and "DietResult.partialDayMultiplier (dietFor input e live) = getMultiplierForHours r"
    and "DietResult.totalDays (dietFor input e live) = Math_round (td * 100) / 100"
    and "DietResult.dietBeforeBreakfast (dietFor input e live) = Math_round (td * rate * 100) / 100"
    and "DietResult.breakfastDeduction (dietFor input e live)
           = Math_round (min (bc * (rate * (1 / 4))) (td * rate) * 100) / 100"
    and "DietResult.totalDiet (dietFor input e live)
           = Math_round (max 0 (td * rate - min (bc * (rate * (1 / 4))) (td * rate)) * 100) / 100"
  using assms(1) unfolding h_def r_def td_def rate_def bc_def
  by (simp_all add: dietFor_def Let_def)

lemma js_rem_24_nonneg:
  assumes "0 \<le> h"
  shows "js_rem h 24 = h - 24 * of_int \<lfloor>h / 24\<rfloor>"
  using assms by (simp add: js_rem_def)

lemma js_rem_24_range:
  assumes "0 \<le> h"
  shows "0 \<le> js_rem h 24" and "js_rem h 24 < 24"
proof -
  have f: "of_int \<lfloor>h / 24\<rfloor> \<le> h / 24" "h / 24 < of_int \<lfloor>h / 24\<rfloor> + 1"
    by linarith+
  show "0 \<le> js_rem h 24" "js_rem h 24 < 24"
    using f by (simp_all add: js_rem_24_nonneg [OF assms] field_simps)
qed

lemma getMultiplierForHours_mono:
  "r1 \<le> r2 \<Longrightarrow> getMultiplierForHours r1 \<le> getMultiplierForHours r2"
  by (simp add: getMultiplierForHours_def)

lemma getMultiplierForHours_bounds:
  "0 < getMultiplierForHours r" "getMultiplierForHours r \<le> 1"
  by (simp_all add: getMultiplierForHours_def)

lemma Math_round_mono: "x \<le> y \<Longrightarrow> Math_round x \<le> Math_round y"
  by (simp add: Math_round_def floor_mono)

lemma effective_days_mono:
  fixes h1 h2 :: rat
  assumes "0 \<le> h1" "h1 \<le> h2"
  shows "of_int \<lfloor>h1 / 24\<rfloor> + (if js_rem h1 24 > 0 then getMultiplierForHours (js_rem h1 24) else 0)
       \<le> of_int \<lfloor>h2 / 24\<rfloor> + (if js_rem h2 24 > 0 then getMultiplierForHours (js_rem h2 24) else (0::rat))"
    (is "?f1 + ?p1 \<le> ?f2 + ?p2")
proof -
  have h2: "0 \<le> h2" using assms by simp
  have fl: "\<lfloor>h1 / 24\<rfloor> \<le> \<lfloor>h2 / 24\<rfloor>"
    using assms by (intro floor_mono) (simp add: divide_right_mono)
  have p1: "?p1 \<le> 1" "0 \<le> ?p1" and p2: "0 \<le> ?p2"
    using getMultiplierForHours_bounds [of "js_rem h1 24"] getMultiplierForHours_bounds [of "js_rem h2 24"]
    by (auto simp: less_imp_le)
  show ?thesis
  proof (cases "\<lfloor>h1 / 24\<rfloor> = \<lfloor>h2 / 24\<rfloor>")
    case True
    have "js_rem h1 24 \<le> js_rem h2 24"
      using assms h2 True by (simp add: js_rem_24_nonneg)
    then have "?p1 \<le> ?p2"
      using getMultiplierForHours_mono [of "js_rem h1 24" "js_rem h2 24"] p2
      by (auto simp: less_imp_le)
    with True show ?thesis by simp
  next
    case False
    with fl have "\<lfloor>h1 / 24\<rfloor> + 1 \<le> \<lfloor>h2 / 24\<rfloor>" by simp
    then have "?f1 + 1 \<le> ?f2" by (metis of_int_1 of_int_add of_int_le_iff)
    with p1 p2 show ?thesis by linarith
  qed
qed


subsection \<open>The worked example\<close>

lemma scenarioTrip_instants:
  "civil_from_days (tripStart div msPerDay) = (2024, 1, 10)
   \<and> tripStart mod msPerDay = 8 * 60 * 60 * 1000
   \<and> civil_from_days (tripEnd div msPerDay) = (2024, 1, 12)
   \<and> tripEnd mod msPerDay = 14 * 60 * 60 * 1000
   \<and> rat_of_int (tripEnd - tripStart) / (1000 * 60 * 60) = 54"
  by code_simp

lemma calculateDiet_scenarioTrip:
  "calculateDiet tripEnd (scenarioTrip m) = Inr (dietFor (scenarioTrip m) tripEnd (m = LIVE))"
  by (cases m) (simp_all add: calculateDiet_def scenarioTrip_def)

lemma scenario_hours:
  "js_rem (rat_of_int (tripEnd - tripStart) / 3600000) 24 = 6"
  "Math_floor (rat_of_int (tripEnd - tripStart) / 3600000 / 24) = 2"
  by (simp_all add: tripStart_def tripEnd_def js_rem_def Math_floor_def)

text \<open>The diet of every input that has the start, the rate and the breakfast of the example.\<close>

lemma scenario_dietFor:
  assumes "DietInput.startDatetime i = tripStart"
      and "DietInput.dailyRate i = 45"
      and "DietInput.breakfastCount i = Some 1"
  shows "DietResult.fullDays (dietFor i tripEnd l) = 2"
    and "partialDay (dietFor i tripEnd l) = 6"
    and "DietResult.partialDayMultiplier (dietFor i tripEnd l) = 1 / 3"
    and "DietResult.totalDays (dietFor i tripEnd l) = 233 / 100"
    and "DietResult.dietBeforeBreakfast (dietFor i tripEnd l) = 105"
    and "DietResult.breakfastDeduction (dietFor i tripEnd l) = 1125 / 100"
    and "DietResult.totalDiet (dietFor i tripEnd l) = 9375 / 100"
proof -
  have s: "DietInput.startDatetime i < tripEnd"
    using assms(1) by (simp add: tripStart_def tripEnd_def)
  note f = dietFor_started [OF s, of l, unfolded assms scenario_hours]
  show "DietResult.fullDays (dietFor i tripEnd l) = 2"
    and "partialDay (dietFor i tripEnd l) = 6"
    and "DietResult.partialDayMultiplier (dietFor i tripEnd l) = 1 / 3"
    and "DietResult.totalDays (dietFor i tripEnd l) = 233 / 100"
    and "DietResult.dietBeforeBreakfast (dietFor i tripEnd l) = 105"
    and "DietResult.breakfastDeduction (dietFor i tripEnd l) = 1125 / 100"
    and "DietResult.totalDiet (dietFor i tripEnd l) = 9375 / 100"
    unfolding f by (simp_all add: getMultiplierForHours_def Math_round_def)
qed

lemma scenarioTrip_fields:
  "DietInput.startDatetime (scenarioTrip m) = tripStart"
  "DietInput.dailyRate (scenarioTrip m) = 45"
  "DietInput.breakfastCount (scenarioTrip m) = Some 1"
  by (simp_all add: scenarioTrip_def)

text \<open>
  Claim C2, as the code has it.  The trip of 54 hours at 45 PLN a day with one breakfast
  gives two full days, a remainder of 6 hours with multiplier 1/3, a gross diet of
  105.00, a deduction of 11.25 and a total of 93.75; the returned \<open>totalDays\<close> is
  7/3 rounded to two decimals, 2.33.
\<close>

theorem scenario_diet_result:
  "\<exists>r. calculateDiet tripEnd (scenarioTrip m) = Inr r
     \<and> DietResult.fullDays r = 2
     \<and> partialDay r = 6
     \<and> DietResult.partialDayMultiplier r = 1 / 3
     \<and> DietResult.totalDays r = 233 / 100
     \<and> DietResult.dietBeforeBreakfast r = 105
     \<and> DietResult.breakfastDeduction r = 1125 / 100
     \<and> DietResult.totalDiet r = 9375 / 100"
  unfolding calculateDiet_scenarioTrip
  by (simp add: scenario_dietFor [OF scenarioTrip_fields])

text \<open>
  Claim C2 as stated gives \<open>totalDays = 2.333\<close>; the returned field is not that value.
\<close>

theorem scenario_totalDays_not_2333:
  "DietResult.totalDays (projr (calculateDiet tripEnd (scenarioTrip PLANNED))) \<noteq> 2333 / 1000"
  unfolding calculateDiet_scenarioTrip
  by (simp add: scenario_dietFor [OF scenarioTrip_fields])

subsection \<open>Multiplier, errors and monotonicity\<close>

lemma calculateDiet_Inr:
  assumes "calculateDiet now input = Inr res"
  shows "res = dietFor input (endDatetime res) (isLive res)"
  using assms
  by (auto simp: calculateDiet_def dietFor_endDatetime dietFor_isLive
           split: DietMode.splits option.splits)

lemma calculateDiet_tripOfHours:
  "calculateDiet now (tripOfHours n)
     = Inr (dietFor (tripOfHours n) (tripStart + n * (1000 * 60 * 60)) False)"
  by (simp add: calculateDiet_def tripOfHours_def)

lemma calculateDiet_cases:
  "calculateDiet now input =
     (case (case mode input of LIVE \<Rightarrow> Some now
            | PLANNED \<Rightarrow> DietInput.plannedEndDatetime input
            | DietMode.CLOSED \<Rightarrow> DietInput.actualEndDatetime input) of
        Some e \<Rightarrow> Inr (dietFor input e (mode input = LIVE))
      | None \<Rightarrow> Inl (Error (if mode input = PLANNED
                              then ''plannedEndDatetime required for PLANNED mode''
                              else ''actualEndDatetime required for CLOSED mode'')))"
  by (simp add: calculateDiet_def split: DietMode.splits option.splits)

text \<open>
  Claim C4.  For a trip with positive elapsed hours, the remainder \<open>r\<close> of the hours
  modulo 24 lies in \<open>[0, 24)\<close> and selects the partial-day multiplier by the rule
  \<open>r < 8\<close>: 1/3, \<open>8 \<le> r < 12\<close>: 1/2, \<open>r \<ge> 12\<close>: 1; a remainder of exactly 8 hours
  gives 1/2 and one of exactly 12 hours gives 1.  The multiplier enters \<open>totalDays\<close>
  when the remainder is positive.
\<close>

theorem partial_day_multiplier_rule:
  assumes "calculateDiet now input = Inr res"
      and "DietInput.startDatetime input < endDatetime res"
  shows "let hours = rat_of_int (endDatetime res - DietInput.startDatetime input) / (1000 * 60 * 60);
             r = hours - 24 * of_int \<lfloor>hours / 24\<rfloor>
         in 0 < hours \<and> 0 \<le> r \<and> r < 24
            \<and> DietResult.fullDays res = \<lfloor>hours / 24\<rfloor>
            \<and> DietResult.partialDayMultiplier res
                = (if r < 8 then 1 / 3 else if r < 12 then 1 / 2 else 1)
            \<and> (r = 8 \<longrightarrow> DietResult.partialDayMultiplier res = 1 / 2)
            \<and> (r = 12 \<longrightarrow> DietResult.partialDayMultiplier res = 1)
            \<and> DietResult.totalDays res
                = Math_round ((of_int \<lfloor>hours / 24\<rfloor>
                               + (if r > 0 then DietResult.partialDayMultiplier res else 0)) * 100) / 100"
proof -
  define h where "h = rat_of_int (endDatetime res - DietInput.startDatetime input) / 3600000"
  have res: "res = dietFor input (endDatetime res) (isLive res)"
    using assms(1) by (rule calculateDiet_Inr)
  have hpos: "0 < h" using assms(2) by (simp add: h_def)
  then have h0: "0 \<le> h" by simp
  have r: "js_rem h 24 = h - 24 * of_int \<lfloor>h / 24\<rfloor>"
    using h0 by (rule js_rem_24_nonneg)
  note rng = js_rem_24_range [OF h0]
  note f = dietFor_started [OF assms(2), of "isLive res", folded res h_def]
  have m: "DietResult.partialDayMultiplier res
             = (if js_rem h 24 < 8 then 1 / 3 else if js_rem h 24 < 12 then 1 / 2 else 1)"
    by (simp add: f getMultiplierForHours_def)
  have "0 < h \<and> 0 \<le> js_rem h 24 \<and> js_rem h 24 < 24
            \<and> DietResult.fullDays res = \<lfloor>h / 24\<rfloor>
            \<and> DietResult.partialDayMultiplier res
                = (if js_rem h 24 < 8 then 1 / 3 else if js_rem h 24 < 12 then 1 / 2 else 1)
            \<and> (js_rem h 24 = 8 \<longrightarrow> DietResult.partialDayMultiplier res = 1 / 2)
            \<and> (js_rem h 24 = 12 \<longrightarrow> DietResult.partialDayMultiplier res = 1)
            \<and> DietResult.totalDays res
                = Math_round ((of_int \<lfloor>h / 24\<rfloor>
                               + (if js_rem h 24 > 0 then DietResult.partialDayMultiplier res else 0)) * 100) / 100"
    using hpos rng by (simp add: f(1,3,4) Math_floor_def getMultiplierForHours_def)
  then show ?thesis
    unfolding r by (simp add: Let_def h_def)
qed


text \<open>
  Claim C5.  \<open>calculateDiet\<close> raises an error exactly when the mode is PLANNED without
  a planned end or CLOSED without an actual end.  When the end instant that governs the
  mode is not after the start, it returns the zero result with the explanatory message.
\<close>

theorem calculateDiet_failure_and_zero_result:
  "((\<exists>err. calculateDiet now input = Inl err)
      \<longleftrightarrow> (mode input = PLANNED \<and> DietInput.plannedEndDatetime input = None
           \<or> mode input = DietMode.CLOSED \<and> DietInput.actualEndDatetime input = None))
   \<and> (\<forall>e. (case mode input of
               LIVE \<Rightarrow> Some now
             | PLANNED \<Rightarrow> DietInput.plannedEndDatetime input
             | DietMode.CLOSED \<Rightarrow> DietInput.actualEndDatetime input) = Some e
            \<and> e \<le> DietInput.startDatetime input
          \<longrightarrow> calculateDiet now input =
                Inr \<lparr> DietResult.fullDays = 0, partialDay = 0,
                      DietResult.partialDayMultiplier = 0, DietResult.totalDays = 0,
                      DietResult.dietBeforeBreakfast = 0, DietResult.breakfastDeduction = 0,
                      DietResult.totalDiet = 0,
                      DietResult.currency = DietInput.currency input,
                      breakdown = Message notStartedMessage, detailedBreakdown = [],
                      endDatetime = e, isLive = (mode input = LIVE) \<rparr>)
   \<and> notStartedMessage \<noteq> []"
proof (intro conjI allI impI)
  show "(\<exists>err. calculateDiet now input = Inl err)
      \<longleftrightarrow> (mode input = PLANNED \<and> DietInput.plannedEndDatetime input = None
           \<or> mode input = DietMode.CLOSED \<and> DietInput.actualEndDatetime input = None)"
    by (cases "mode input") (auto simp: calculateDiet_def split: option.splits)
next
  fix e
  assume a: "(case mode input of
               LIVE \<Rightarrow> Some now
             | PLANNED \<Rightarrow> DietInput.plannedEndDatetime input
             | DietMode.CLOSED \<Rightarrow> DietInput.actualEndDatetime input) = Some e
            \<and> e \<le> DietInput.startDatetime input"
  then have "calculateDiet now input = Inr (dietFor input e (mode input = LIVE))"
    by (simp add: calculateDiet_cases)
  with a show "calculateDiet now input =
                Inr \<lparr> DietResult.fullDays = 0, partialDay = 0,
                      DietResult.partialDayMultiplier = 0, DietResult.totalDays = 0,
                      DietResult.dietBeforeBreakfast = 0, DietResult.breakfastDeduction = 0,
                      DietResult.totalDiet = 0,
                      DietResult.currency = DietInput.currency input,
                      breakdown = Message notStartedMessage, detailedBreakdown = [],
                      endDatetime = e, isLive = (mode input = LIVE) \<rparr>"
    by (simp add: dietFor_notStarted)
next
  show "notStartedMessage \<noteq> []" by (simp add: notStartedMessage_def)
qed

lemma Math_round_nonneg: "0 \<le> x \<Longrightarrow> 0 \<le> Math_round x"
  by (simp add: Math_round_def)

lemma diet_total_nonneg: "0 \<le> DietResult.totalDiet (dietFor input e live)"
proof (cases "e \<le> DietInput.startDatetime input")
  case True
  then show ?thesis by (simp add: dietFor_notStarted)
next
  case False
  then have "DietInput.startDatetime input < e" by simp
  show ?thesis
    unfolding dietFor_started(7) [OF \<open>DietInput.startDatetime input < e\<close>]
    by (intro divide_nonneg_nonneg Math_round_nonneg mult_nonneg_nonneg) simp_all
qed

lemma breakfast_cap: "max 0 (g - min c g) = max 0 (g - c)" for g c :: rat
  by (simp add: max_def min_def)

lemma dietFor_totalDiet_mono:
  assumes "DietInput.startDatetime i1 = DietInput.startDatetime i2"
      and "DietInput.dailyRate i1 = DietInput.dailyRate i2"
      and "DietInput.breakfastCount i1 = DietInput.breakfastCount i2"
      and "0 \<le> DietInput.dailyRate i1"
      and "e1 \<le> e2"
  shows "DietResult.totalDiet (dietFor i1 e1 l1) \<le> DietResult.totalDiet (dietFor i2 e2 l2)"
proof (cases "e1 \<le> DietInput.startDatetime i1")
  case True
  then show ?thesis using diet_total_nonneg [of i2 e2 l2] by (simp add: dietFor_notStarted)
next
  case False
  then have s1: "DietInput.startDatetime i1 < e1" by simp
  with assms have s2: "DietInput.startDatetime i2 < e2" by simp
  define h1 where "h1 = rat_of_int (e1 - DietInput.startDatetime i1) / 3600000"
  define h2 where "h2 = rat_of_int (e2 - DietInput.startDatetime i2) / 3600000"
  define rate where "rate = DietInput.dailyRate i2"
  define c where "c = (case DietInput.breakfastCount i2 of None \<Rightarrow> 0 | Some b \<Rightarrow> b) * (rate * (1 / 4))"
  define td1 where "td1 = rat_of_int (Math_floor (h1 / 24))
      + (if js_rem h1 24 > 0 then getMultiplierForHours (js_rem h1 24) else 0)"
  define td2 where "td2 = rat_of_int (Math_floor (h2 / 24))
      + (if js_rem h2 24 > 0 then getMultiplierForHours (js_rem h2 24) else 0)"
  have h: "0 \<le> h1" "h1 \<le> h2"
    using s1 assms(1,5) by (simp_all add: h1_def h2_def divide_right_mono)
  have td: "td1 \<le> td2"
    unfolding td1_def td2_def Math_floor_def by (rule effective_days_mono [OF h])
  have rate: "0 \<le> rate" using assms(2,4) by (simp add: rate_def)
  have t1: "DietResult.totalDiet (dietFor i1 e1 l1)
              = Math_round (max 0 (td1 * rate - min c (td1 * rate)) * 100) / 100"
    using dietFor_started(7) [OF s1, of l1] assms(2,3)
    by (simp add: td1_def h1_def rate_def c_def)
  have t2: "DietResult.totalDiet (dietFor i2 e2 l2)
              = Math_round (max 0 (td2 * rate - min c (td2 * rate)) * 100) / 100"
    using dietFor_started(7) [OF s2, of l2]
    by (simp add: td2_def h2_def rate_def c_def)
  have "td1 * rate \<le> td2 * rate" using td rate by (rule mult_right_mono)
  then have "max 0 (td1 * rate - c) \<le> max 0 (td2 * rate - c)" by simp
  then have "Math_round (max 0 (td1 * rate - c) * 100) \<le> Math_round (max 0 (td2 * rate - c) * 100)"
    by (intro Math_round_mono) simp
  then show ?thesis unfolding t1 t2 breakfast_cap by (simp add: divide_right_mono)
qed

text \<open>
  Claim C9.  With the same start, the same non-negative daily rate and the same
  breakfast count, a later end instant never gives a smaller \<open>totalDiet\<close>.  The end
  instant is the one the result reports in \<open>endDatetime\<close>.
\<close>

theorem totalDiet_monotone_in_duration:
  assumes "calculateDiet now1 input1 = Inr res1"
      and "calculateDiet now2 input2 = Inr res2"
      and "DietInput.startDatetime input1 = DietInput.startDatetime input2"
      and "DietInput.dailyRate input1 = DietInput.dailyRate input2"
      and "DietInput.breakfastCount input1 = DietInput.breakfastCount input2"
      and "0 \<le> DietInput.dailyRate input1"
      and "endDatetime res1 \<le> endDatetime res2"
  shows "DietResult.totalDiet res1 \<le> DietResult.totalDiet res2"
proof -
  have "res1 = dietFor input1 (endDatetime res1) (isLive res1)"
    using assms(1) by (rule calculateDiet_Inr)
  moreover have "res2 = dietFor input2 (endDatetime res2) (isLive res2)"
    using assms(2) by (rule calculateDiet_Inr)
  ultimately show ?thesis
    using dietFor_totalDiet_mono [OF assms(3-7), of "isLive res1" "isLive res2"] by simp
qed

text \<open>A trip whose end equals its start, and the same trip with the needed end missing.\<close>

theorem calculateDiet_failure_and_zero_result_witness:
  "(\<exists>err. calculateDiet 0 ((tripOfHours 0)\<lparr>mode := DietMode.CLOSED\<rparr>) = Inl err)
   \<and> (\<exists>err. calculateDiet 0 ((tripOfHours 0)\<lparr>DietInput.plannedEndDatetime := None\<rparr>) = Inl err)
   \<and> \<not> (\<exists>err. calculateDiet 0 (tripOfHours 0) = Inl err)
   \<and> calculateDiet 0 (tripOfHours 0) =
       Inr \<lparr> DietResult.fullDays = 0, partialDay = 0,
             DietResult.partialDayMultiplier = 0, DietResult.totalDays = 0,
             DietResult.dietBeforeBreakfast = 0, DietResult.breakfastDeduction = 0,
             DietResult.totalDiet = 0, DietResult.currency = ''PLN'',
             breakdown = Message notStartedMessage, detailedBreakdown = [],
             endDatetime = tripStart, isLive = False \<rparr>"
  using calculateDiet_failure_and_zero_result [of 0 "(tripOfHours 0)\<lparr>mode := DietMode.CLOSED\<rparr>"]
        calculateDiet_failure_and_zero_result [of 0 "(tripOfHours 0)\<lparr>DietInput.plannedEndDatetime := None\<rparr>"]
        calculateDiet_failure_and_zero_result [of 0 "tripOfHours 0"]
  by (simp add: tripOfHours_def)

text \<open>Trips of 8 hours and of 36 hours (remainder 12) meet the two boundaries.\<close>

theorem partial_day_multiplier_rule_witness:
  "calculateDiet 0 (tripOfHours 8) = Inr (dietFor (tripOfHours 8) (tripStart + 8 * (1000 * 60 * 60)) False)
   \<and> DietInput.startDatetime (tripOfHours 8)
       < endDatetime (dietFor (tripOfHours 8) (tripStart + 8 * (1000 * 60 * 60)) False)
   \<and> DietResult.partialDayMultiplier
         (dietFor (tripOfHours 8) (tripStart + 8 * (1000 * 60 * 60)) False) = 1 / 2
   \<and> calculateDiet 0 (tripOfHours 36) = Inr (dietFor (tripOfHours 36) (tripStart + 36 * (1000 * 60 * 60)) False)
   \<and> DietInput.startDatetime (tripOfHours 36)
       < endDatetime (dietFor (tripOfHours 36) (tripStart + 36 * (1000 * 60 * 60)) False)
   \<and> DietResult.partialDayMultiplier
         (dietFor (tripOfHours 36) (tripStart + 36 * (1000 * 60 * 60)) False) = 1"
proof -
  have a: "calculateDiet 0 (tripOfHours 8) = Inr (dietFor (tripOfHours 8) (tripStart + 8 * (1000 * 60 * 60)) False)"
    and b: "calculateDiet 0 (tripOfHours 36) = Inr (dietFor (tripOfHours 36) (tripStart + 36 * (1000 * 60 * 60)) False)"
    by (rule calculateDiet_tripOfHours)+
  have a': "DietInput.startDatetime (tripOfHours 8)
       < endDatetime (dietFor (tripOfHours 8) (tripStart + 8 * (1000 * 60 * 60)) False)"
    and b': "DietInput.startDatetime (tripOfHours 36)
       < endDatetime (dietFor (tripOfHours 36) (tripStart + 36 * (1000 * 60 * 60)) False)"
    by (simp_all add: dietFor_endDatetime tripOfHours_def)
  have s: "DietInput.startDatetime (tripOfHours n) = tripStart" for n
    by (simp add: tripOfHours_def)
  show ?thesis
    using a a' b b' partial_day_multiplier_rule [OF a a'] partial_day_multiplier_rule [OF b b']
    by (simp add: Let_def dietFor_endDatetime s Math_round_def)
qed

text \<open>Six hours against eight hours of the same trip.\<close>

theorem totalDiet_monotone_in_duration_witness:
  "calculateDiet 0 (tripOfHours 6) = Inr (dietFor (tripOfHours 6) (tripStart + 6 * (1000 * 60 * 60)) False)
   \<and> calculateDiet 0 (tripOfHours 8) = Inr (dietFor (tripOfHours 8) (tripStart + 8 * (1000 * 60 * 60)) False)
   \<and> DietInput.startDatetime (tripOfHours 6) = DietInput.startDatetime (tripOfHours 8)
   \<and> DietInput.dailyRate (tripOfHours 6) = DietInput.dailyRate (tripOfHours 8)
   \<and> DietInput.breakfastCount (tripOfHours 6) = DietInput.breakfastCount (tripOfHours 8)
   \<and> 0 \<le> DietInput.dailyRate (tripOfHours 6)
   \<and> endDatetime (dietFor (tripOfHours 6) (tripStart + 6 * (1000 * 60 * 60)) False)
       \<le> endDatetime (dietFor (tripOfHours 8) (tripStart + 8 * (1000 * 60 * 60)) False)
   \<and> DietResult.totalDiet (dietFor (tripOfHours 6) (tripStart + 6 * (1000 * 60 * 60)) False)
       \<le> DietResult.totalDiet (dietFor (tripOfHours 8) (tripStart + 8 * (1000 * 60 * 60)) False)"
proof -
  have a: "calculateDiet 0 (tripOfHours 6) = Inr (dietFor (tripOfHours 6) (tripStart + 6 * (1000 * 60 * 60)) False)"
    and b: "calculateDiet 0 (tripOfHours 8) = Inr (dietFor (tripOfHours 8) (tripStart + 8 * (1000 * 60 * 60)) False)"
    by (rule calculateDiet_tripOfHours)+
  have c: "DietInput.startDatetime (tripOfHours 6) = DietInput.startDatetime (tripOfHours 8)"
    and d: "DietInput.dailyRate (tripOfHours 6) = DietInput.dailyRate (tripOfHours 8)"
    and e: "DietInput.breakfastCount (tripOfHours 6) = DietInput.breakfastCount (tripOfHours 8)"
    and f: "0 \<le> DietInput.dailyRate (tripOfHours 6)"
    by (simp_all add: tripOfHours_def)
  have g: "endDatetime (dietFor (tripOfHours 6) (tripStart + 6 * (1000 * 60 * 60)) False)
       \<le> endDatetime (dietFor (tripOfHours 8) (tripStart + 8 * (1000 * 60 * 60)) False)"
    by (simp add: dietFor_endDatetime)
  show ?thesis
    using a b c d e f g totalDiet_monotone_in_duration [OF a b c d e f g] by simp
qed


section \<open>Properties of the project balance\<close>

text \<open>
  The function with its tuple of hotel status and overage written out field by field.
\<close>

lemma calculateProjectBalance_unfold:
  "calculateProjectBalance now1 now2 input =
    (let p = project input;
         validTransactions =
           filter (\<lambda>t. \<not> isPrivate t \<and> \<not> excludedFromProject t) (transactions input);
         advTotal = round2 (foldl (\<lambda>sum a. sum + AdvanceSummary.amount a) 0 (advances input));
         ct = foldl addToCategory
                \<lparr> FOOD = 0, TRANSPORT = 0, HOTEL = 0, PARKING = 0, FUEL = 0,
                  CategoryTotals.OTHER = 0 \<rparr>
                validTransactions;
         expTotal = round2 (0 + FOOD ct + TRANSPORT ct + HOTEL ct + PARKING ct + FUEL ct
                            + CategoryTotals.OTHER ct);
         hotelComb = round2 (HOTEL ct + PARKING ct);
         hotelLim = hotelLimitSnapshot p
     in
     case calculateDiet now1
            \<lparr> DietInput.startDatetime = Project.startDatetime p,
              DietInput.plannedEndDatetime = Project.plannedEndDatetime p,
              DietInput.actualEndDatetime = Project.actualEndDatetime p,
              mode = getDietMode (status p) (Project.actualEndDatetime p),
              DietInput.dailyRate = dietAmountSnapshot p,
              DietInput.currency = Project.currency p,
              DietInput.breakfastCount = Some (Project.breakfastCount p) \<rparr> of
       Inl e \<Rightarrow> Inl e
     | Inr dietRes \<Rightarrow>
         let bal = round2 (advTotal - expTotal + DietResult.totalDiet dietRes)
         in Inr \<lparr> advancesTotal = advTotal,
                  expensesTotal = expTotal,
                  categoryTotals = ct,
                  hotelCombined = hotelComb,
                  hotelLimit = hotelLim,
                  hotelStatus = (if hotelComb > 0
                                 then (if hotelComb \<le> hotelLim then within_limit else over_limit)
                                 else no_hotel),
                  hotelOverage = (if hotelComb > 0
                                  then (if hotelComb \<le> hotelLim then 0
                                        else round2 (hotelComb - hotelLim))
                                  else 0),
                  diet = dietRes,
                  balance = bal,
                  balanceDescription = buildBalanceDescription bal (Project.currency p)
                       (advTotal, expTotal, DietResult.totalDiet dietRes),
                  averageDailyExpense =
                    (if calculateTripHours now2 p / 24 > 0
                     then round2 (expTotal / (calculateTripHours now2 p / 24)) else 0),
                  transactionCount = length validTransactions \<rparr>)"
  unfolding calculateProjectBalance_def Let_def
  by (simp split: sum.splits)

lemma calculateProjectBalance_Inr:
  assumes "calculateProjectBalance now1 now2 input = Inr r"
  defines "p \<equiv> project input"
  defines "ct \<equiv> foldl addToCategory
                \<lparr> FOOD = 0, TRANSPORT = 0, HOTEL = 0, PARKING = 0, FUEL = 0,
                  CategoryTotals.OTHER = 0 \<rparr>
                (filter (\<lambda>t. \<not> isPrivate t \<and> \<not> excludedFromProject t) (transactions input))"
  shows "advancesTotal r = round2 (foldl (\<lambda>sum a. sum + AdvanceSummary.amount a) 0 (advances input))"
    and "categoryTotals r = ct"
    and "expensesTotal r = round2 (0 + FOOD ct + TRANSPORT ct + HOTEL ct + PARKING ct + FUEL ct
                                   + CategoryTotals.OTHER ct)"
    and "hotelCombined r = round2 (HOTEL ct + PARKING ct)"
    and "hotelLimit r = hotelLimitSnapshot p"
    and "hotelStatus r = (if hotelCombined r > 0
                          then (if hotelCombined r \<le> hotelLimit r then within_limit else over_limit)
                          else no_hotel)"
    and "hotelOverage r = (if hotelCombined r > 0
                           then (if hotelCombined r \<le> hotelLimit r then 0
                                 else round2 (hotelCombined r - hotelLimit r))
                           else 0)"
    and "calculateDiet now1
            \<lparr> DietInput.startDatetime = Project.startDatetime p,
              DietInput.plannedEndDatetime = Project.plannedEndDatetime p,
              DietInput.actualEndDatetime = Project.actualEndDatetime p,
              mode = getDietMode (status p) (Project.actualEndDatetime p),
              DietInput.dailyRate = dietAmountSnapshot p,
              DietInput.currency = Project.currency p,
              DietInput.breakfastCount = Some (Project.breakfastCount p) \<rparr> = Inr (diet r)"
    and "balance r = round2 (advancesTotal r - expensesTotal r + DietResult.totalDiet (diet r))"
  using assms(1) unfolding p_def ct_def calculateProjectBalance_unfold Let_def
  by (auto split: sum.splits)

lemma calculateProjectBalance_total:
  assumes "calculateDiet now1
            \<lparr> DietInput.startDatetime = Project.startDatetime (project input),
              DietInput.plannedEndDatetime = Project.plannedEndDatetime (project input),
              DietInput.actualEndDatetime = Project.actualEndDatetime (project input),
              mode = getDietMode (status (project input)) (Project.actualEndDatetime (project input)),
              DietInput.dailyRate = dietAmountSnapshot (project input),
              DietInput.currency = Project.currency (project input),
              DietInput.breakfastCount = Some (Project.breakfastCount (project input)) \<rparr> = Inr d"
  shows "\<exists>r. calculateProjectBalance now1 now2 input = Inr r"
  using assms unfolding calculateProjectBalance_unfold Let_def by simp

text \<open>
  Claim C1.  Whenever \<open>calculateProjectBalance\<close> returns a result, its \<open>balance\<close> is
  \<open>round2 (advancesTotal - expensesTotal + diet.totalDiet)\<close> of the same result.  (It
  returns a result exactly when \<open>calculateDiet\<close> does not raise, see
  \<open>calculateProjectBalance_total\<close>.)
\<close>

theorem balance_identity:
  assumes "calculateProjectBalance now1 now2 input = Inr r"
  shows "balance r = round2 (advancesTotal r - expensesTotal r + DietResult.totalDiet (diet r))"
  using assms by (rule calculateProjectBalance_Inr(9))

lemma scenarioProject_dietInput:
  "\<lparr> DietInput.startDatetime = Project.startDatetime (scenarioProject limit),
     DietInput.plannedEndDatetime = Project.plannedEndDatetime (scenarioProject limit),
     DietInput.actualEndDatetime = Project.actualEndDatetime (scenarioProject limit),
     mode = getDietMode (status (scenarioProject limit)) (Project.actualEndDatetime (scenarioProject limit)),
     DietInput.dailyRate = dietAmountSnapshot (scenarioProject limit),
     DietInput.currency = Project.currency (scenarioProject limit),
     DietInput.breakfastCount = Some (Project.breakfastCount (scenarioProject limit)) \<rparr>
   = (scenarioTrip PLANNED)\<lparr>DietInput.actualEndDatetime := None\<rparr>"
  by (simp add: scenarioProject_def scenarioTrip_def getDietMode_def)

lemma scenarioProject_diet:
  "calculateDiet now ((scenarioTrip PLANNED)\<lparr>DietInput.actualEndDatetime := None\<rparr>)
     = Inr (dietFor ((scenarioTrip PLANNED)\<lparr>DietInput.actualEndDatetime := None\<rparr>) tripEnd False)"
  by (simp add: calculateDiet_def scenarioTrip_def)

lemma scenarioProject_totalDiet:
  "DietResult.totalDiet
     (dietFor ((scenarioTrip PLANNED)\<lparr>DietInput.actualEndDatetime := None\<rparr>) tripEnd False)
   = 9375 / 100"
  by (rule scenario_dietFor) (simp_all add: scenarioTrip_def)

lemma scenario_categoryTotals:
  "foldl addToCategory
     \<lparr> FOOD = 0, TRANSPORT = 0, HOTEL = 0, PARKING = 0, FUEL = 0, CategoryTotals.OTHER = 0 \<rparr>
     (filter (\<lambda>t. \<not> isPrivate t \<and> \<not> excludedFromProject t) scenarioTransactions)
   = \<lparr> FOOD = 50, TRANSPORT = 0, HOTEL = 300, PARKING = 0, FUEL = 0, CategoryTotals.OTHER = 0 \<rparr>"
  by (simp add: scenarioTransactions_def addToCategory_def toUpperCase_def char_of_def bit_0
        round2_def Math_round_def)

lemma scenario_balance_runs:
  "\<exists>r. calculateProjectBalance now1 now2 (scenarioBalanceInput limit ts) = Inr r"
  by (rule calculateProjectBalance_total)
     (simp add: scenarioBalanceInput_def scenarioProject_dietInput scenarioProject_diet)

lemma scenario_balance_fields:
  assumes "calculateProjectBalance now1 now2 (scenarioBalanceInput limit scenarioTransactions) = Inr r"
  shows "advancesTotal r = 500" and "expensesTotal r = 350" and "hotelCombined r = 300"
    and "hotelLimit r = limit" and "DietResult.totalDiet (diet r) = 9375 / 100"
proof -
  note f = calculateProjectBalance_Inr [OF assms]
  have p: "project (scenarioBalanceInput limit scenarioTransactions) = scenarioProject limit"
      "transactions (scenarioBalanceInput limit scenarioTransactions) = scenarioTransactions"
      "advances (scenarioBalanceInput limit scenarioTransactions) = scenarioAdvances"
    by (simp_all add: scenarioBalanceInput_def)
  show "advancesTotal r = 500"
    unfolding f(1) p by (simp add: scenarioAdvances_def round2_def Math_round_def)
  show "expensesTotal r = 350"
    unfolding f(3) p scenario_categoryTotals by (simp add: round2_def Math_round_def)
  show "hotelCombined r = 300"
    unfolding f(4) p scenario_categoryTotals by (simp add: round2_def Math_round_def)
  show "hotelLimit r = limit"
    unfolding f(5) p by (simp add: scenarioProject_def)
  have "Inr (diet r) = Inr (dietFor ((scenarioTrip PLANNED)\<lparr>DietInput.actualEndDatetime := None\<rparr>) tripEnd False)"
    using f(8) unfolding p scenarioProject_dietInput scenarioProject_diet by simp
  then show "DietResult.totalDiet (diet r) = 9375 / 100"
    by (simp add: scenarioProject_totalDiet)
qed

text \<open>The example: advances 500, expenses 350, diet 93.75, balance 243.75.\<close>

theorem balance_identity_witness:
  "\<exists>r. calculateProjectBalance tripEnd tripEnd (scenarioBalanceInput 270 scenarioTransactions) = Inr r
      \<and> advancesTotal r = 500 \<and> expensesTotal r = 350
      \<and> DietResult.totalDiet (diet r) = 9375 / 100
      \<and> balance r = 24375 / 100"
proof -
  obtain r where r: "calculateProjectBalance tripEnd tripEnd (scenarioBalanceInput 270 scenarioTransactions) = Inr r"
    using scenario_balance_runs by blast
  have "balance r = 24375 / 100"
    using balance_identity [OF r] scenario_balance_fields [OF r]
    by (simp add: round2_def Math_round_def)
  with r scenario_balance_fields [OF r] show ?thesis by blast
qed

lemma addToCategory_HOTEL:
  "HOTEL (addToCategory ct t)
     = (if toUpperCase (category t) = ''HOTEL'' then round2 (HOTEL ct + TransactionSummary.amount t)
        else HOTEL ct)"
  by (simp add: addToCategory_def Let_def)

lemma addToCategory_PARKING:
  "PARKING (addToCategory ct t)
     = (if toUpperCase (category t) = ''PARKING'' then round2 (PARKING ct + TransactionSummary.amount t)
        else PARKING ct)"
  by (simp add: addToCategory_def Let_def)

lemma foldl_addToCategory_HOTEL:
  "HOTEL (foldl addToCategory ct ts)
     = foldl (\<lambda>s t. round2 (s + TransactionSummary.amount t)) (HOTEL ct)
         (filter (\<lambda>t. toUpperCase (category t) = ''HOTEL'') ts)"
  by (induction ts arbitrary: ct) (simp_all add: addToCategory_HOTEL)

lemma foldl_addToCategory_PARKING:
  "PARKING (foldl addToCategory ct ts)
     = foldl (\<lambda>s t. round2 (s + TransactionSummary.amount t)) (PARKING ct)
         (filter (\<lambda>t. toUpperCase (category t) = ''PARKING'') ts)"
  by (induction ts arbitrary: ct) (simp_all add: addToCategory_PARKING)

text \<open>
  The classification as the code branches: \<open>hotelCombined\<close> is the rounded sum of the
  HOTEL and PARKING totals of the valid transactions; a combined total that is not
  positive is \<open>no_hotel\<close>, a positive one is compared with the limit.
\<close>

lemma hotel_classification_guarded:
  assumes "calculateProjectBalance now1 now2 input = Inr r"
  shows "hotelLimit r = hotelLimitSnapshot (project input)
     \<and> hotelCombined r = round2 (HOTEL (categoryTotals r) + PARKING (categoryTotals r))
     \<and> HOTEL (categoryTotals r)
         = foldl (\<lambda>s t. round2 (s + TransactionSummary.amount t)) 0
             (filter (\<lambda>t. toUpperCase (category t) = ''HOTEL'')
                (filter (\<lambda>t. \<not> isPrivate t \<and> \<not> excludedFromProject t) (transactions input)))
     \<and> PARKING (categoryTotals r)
         = foldl (\<lambda>s t. round2 (s + TransactionSummary.amount t)) 0
             (filter (\<lambda>t. toUpperCase (category t) = ''PARKING'')
                (filter (\<lambda>t. \<not> isPrivate t \<and> \<not> excludedFromProject t) (transactions input)))
     \<and> (hotelCombined r \<le> 0 \<longrightarrow> hotelStatus r = no_hotel \<and> hotelOverage r = 0)
     \<and> (0 < hotelCombined r \<and> hotelCombined r \<le> hotelLimit r
          \<longrightarrow> hotelStatus r = within_limit \<and> hotelOverage r = 0)
     \<and> (0 < hotelCombined r \<and> hotelLimit r < hotelCombined r
          \<longrightarrow> hotelStatus r = over_limit
              \<and> hotelOverage r = round2 (hotelCombined r - hotelLimit r))
     \<and> (0 \<le> hotelLimit r \<and> hotelLimit r < hotelCombined r
          \<longrightarrow> hotelStatus r = over_limit
              \<and> hotelOverage r = round2 (hotelCombined r - hotelLimit r))"
proof -
  note f = calculateProjectBalance_Inr [OF assms]
  have "HOTEL (categoryTotals r)
         = foldl (\<lambda>s t. round2 (s + TransactionSummary.amount t)) 0
             (filter (\<lambda>t. toUpperCase (category t) = ''HOTEL'')
                (filter (\<lambda>t. \<not> isPrivate t \<and> \<not> excludedFromProject t) (transactions input)))"
    unfolding f(2) foldl_addToCategory_HOTEL by simp
  moreover have "PARKING (categoryTotals r)
         = foldl (\<lambda>s t. round2 (s + TransactionSummary.amount t)) 0
             (filter (\<lambda>t. toUpperCase (category t) = ''PARKING'')
                (filter (\<lambda>t. \<not> isPrivate t \<and> \<not> excludedFromProject t) (transactions input)))"
    unfolding f(2) foldl_addToCategory_PARKING by simp
  moreover have "hotelCombined r = round2 (HOTEL (categoryTotals r) + PARKING (categoryTotals r))"
    unfolding f(2) by (rule f(4))
  moreover note f(5)
  moreover have "hotelCombined r \<le> 0 \<longrightarrow> hotelStatus r = no_hotel \<and> hotelOverage r = 0"
    by (simp add: f(6,7))
  moreover have "0 < hotelCombined r \<and> hotelCombined r \<le> hotelLimit r
          \<longrightarrow> hotelStatus r = within_limit \<and> hotelOverage r = 0"
    by (simp add: f(6,7))
  moreover have "0 < hotelCombined r \<and> hotelLimit r < hotelCombined r
          \<longrightarrow> hotelStatus r = over_limit
              \<and> hotelOverage r = round2 (hotelCombined r - hotelLimit r)"
    by (simp add: f(6,7))
  moreover have "0 \<le> hotelLimit r \<and> hotelLimit r < hotelCombined r
          \<longrightarrow> hotelStatus r = over_limit
              \<and> hotelOverage r = round2 (hotelCombined r - hotelLimit r)"
    by (simp add: f(6,7))
  ultimately show ?thesis by blast
qed

text \<open>
  Claim C8.  The hotel limit is the accommodation limit of the country, frozen when the
  project is created; it is not negative.  Then: a combined total (the rounded HOTEL
  plus PARKING total of the valid transactions) of 0 is \<open>no_hotel\<close>; a positive one up to
  the limit, the limit included, is \<open>within_limit\<close> with overage 0; one above the limit
  is \<open>over_limit\<close> with overage \<open>round2 (hotelCombined - hotelLimit)\<close>.
\<close>

theorem hotel_classification:
  assumes "calculateProjectBalance now1 now2 input = Inr r"
      and "0 \<le> hotelLimitSnapshot (project input)"
  shows "hotelLimit r = hotelLimitSnapshot (project input)
     \<and> hotelCombined r = round2 (HOTEL (categoryTotals r) + PARKING (categoryTotals r))
     \<and> HOTEL (categoryTotals r)
         = foldl (\<lambda>s t. round2 (s + TransactionSummary.amount t)) 0
             (filter (\<lambda>t. toUpperCase (category t) = ''HOTEL'')
                (filter (\<lambda>t. \<not> isPrivate t \<and> \<not> excludedFromProject t) (transactions input)))
     \<and> PARKING (categoryTotals r)
         = foldl (\<lambda>s t. round2 (s + TransactionSummary.amount t)) 0
             (filter (\<lambda>t. toUpperCase (category t) = ''PARKING'')
                (filter (\<lambda>t. \<not> isPrivate t \<and> \<not> excludedFromProject t) (transactions input)))
     \<and> (hotelCombined r = 0 \<longrightarrow> hotelStatus r = no_hotel)
     \<and> (0 < hotelCombined r \<and> hotelCombined r \<le> hotelLimit r
          \<longrightarrow> hotelStatus r = within_limit \<and> hotelOverage r = 0)
     \<and> (hotelCombined r = hotelLimit r \<and> 0 < hotelCombined r
          \<longrightarrow> hotelStatus r = within_limit)
     \<and> (hotelCombined r > hotelLimit r
          \<longrightarrow> hotelStatus r = over_limit
              \<and> hotelOverage r = round2 (hotelCombined r - hotelLimit r))"
proof -
  note g = hotel_classification_guarded [OF assms(1)]
  have l: "0 \<le> hotelLimit r" using g assms(2) by simp
  have "hotelCombined r = 0 \<longrightarrow> hotelStatus r = no_hotel"
    using g by simp
  moreover have "0 < hotelCombined r \<and> hotelCombined r \<le> hotelLimit r
          \<longrightarrow> hotelStatus r = within_limit \<and> hotelOverage r = 0"
    using g by blast
  moreover have "hotelCombined r = hotelLimit r \<and> 0 < hotelCombined r
          \<longrightarrow> hotelStatus r = within_limit"
    using g by simp
  moreover have "hotelCombined r > hotelLimit r
          \<longrightarrow> hotelStatus r = over_limit
              \<and> hotelOverage r = round2 (hotelCombined r - hotelLimit r)"
    using g l by simp
  ultimately show ?thesis
    using g by blast
qed

text \<open>
  A hotel total of 300 against the limits 270 and 300, and no transaction at all
  against the limit 270.
\<close>

theorem hotel_classification_witness:
  "(\<exists>r. calculateProjectBalance tripEnd tripEnd (scenarioBalanceInput 270 scenarioTransactions) = Inr r
       \<and> 0 \<le> hotelLimitSnapshot (project (scenarioBalanceInput 270 scenarioTransactions))
       \<and> hotelCombined r = 300 \<and> hotelLimit r = 270
       \<and> hotelStatus r = over_limit \<and> hotelOverage r = 30)
   \<and> (\<exists>r. calculateProjectBalance tripEnd tripEnd (scenarioBalanceInput 300 scenarioTransactions) = Inr r
       \<and> 0 \<le> hotelLimitSnapshot (project (scenarioBalanceInput 300 scenarioTransactions))
       \<and> hotelCombined r = 300 \<and> hotelLimit r = 300
       \<and> hotelStatus r = within_limit \<and> hotelOverage r = 0)
   \<and> (\<exists>r. calculateProjectBalance tripEnd tripEnd (scenarioBalanceInput 270 []) = Inr r
       \<and> 0 \<le> hotelLimitSnapshot (project (scenarioBalanceInput 270 []))
       \<and> hotelCombined r = 0 \<and> hotelStatus r = no_hotel)"
proof -
  obtain r where r: "calculateProjectBalance tripEnd tripEnd (scenarioBalanceInput 270 scenarioTransactions) = Inr r"
    using scenario_balance_runs by blast
  obtain r' where r': "calculateProjectBalance tripEnd tripEnd (scenarioBalanceInput 300 scenarioTransactions) = Inr r'"
    using scenario_balance_runs by blast
  obtain r0 where r0: "calculateProjectBalance tripEnd tripEnd (scenarioBalanceInput 270 []) = Inr r0"
    using scenario_balance_runs by blast
  have l: "0 \<le> hotelLimitSnapshot (project (scenarioBalanceInput 270 scenarioTransactions))"
    and l': "0 \<le> hotelLimitSnapshot (project (scenarioBalanceInput 300 scenarioTransactions))"
    and l0: "0 \<le> hotelLimitSnapshot (project (scenarioBalanceInput 270 []))"
    by (simp_all add: scenarioBalanceInput_def scenarioProject_def)
  have c0: "hotelCombined r0 = 0"
    unfolding calculateProjectBalance_Inr(4) [OF r0]
    by (simp add: scenarioBalanceInput_def round2_def Math_round_def)
  have "hotelStatus r = over_limit \<and> hotelOverage r = 30"
    using hotel_classification [OF r l] scenario_balance_fields(3,4) [OF r]
    by (simp add: round2_def Math_round_def)
  moreover have "hotelStatus r' = within_limit \<and> hotelOverage r' = 0"
    using hotel_classification [OF r' l'] scenario_balance_fields(3,4) [OF r']
    by simp
  moreover have "hotelStatus r0 = no_hotel"
    using hotel_classification [OF r0 l0] c0 by simp
  ultimately show ?thesis
    using r r' r0 l l' l0 c0 scenario_balance_fields(3,4) [OF r] scenario_balance_fields(3,4) [OF r']
    by blast
qed

section \<open>Properties of the net salary\<close>

text \<open>Every figure of the result, in terms of the figures computed before it.\<close>

lemma calculateSalaryNet_figures:
  fixes input :: SalaryInput
  defines "rates \<equiv> (case taxRates input of None \<Rightarrow> TAX_RATES_2024_2025 | Some r \<Rightarrow> r)"
  defines "res \<equiv> calculateSalaryNet input"
  shows "SalaryFigures.brutto res = SalaryInput.brutto input"
    and "pensionContribution res = round2 (SalaryInput.brutto input * pensionRate rates)"
    and "disabilityContribution res = round2 (SalaryInput.brutto input * disabilityRate rates)"
    and "sicknessContribution res
           = (if SalaryInput.voluntarySocialSecurity input
              then round2 (SalaryInput.brutto input * sicknessRate rates) else 0)"
    and "totalSocialSecurity res
           = pensionContribution res + disabilityContribution res + sicknessContribution res"
    and "healthInsuranceBase res = round2 (SalaryInput.brutto input - totalSocialSecurity res)"
    and "healthInsurance res = round2 (healthInsuranceBase res * healthInsuranceRate rates)"
    and "incomeBase res = round2 (SalaryInput.brutto input - totalSocialSecurity res)"
    and "SalaryFigures.costOfIncome res
           = min (round2 (incomeBase res * TaxRates.costOfIncome rates)) (maxCostOfIncome rates)"
    and "taxBase res = Math_round (max 0 (incomeBase res - SalaryFigures.costOfIncome res))"
    and "taxBeforeDeduction res = round2 (taxBase res * incomeTaxRate rates)"
    and "taxFreeDeduction res = min (taxBeforeDeduction res) (taxFreeMonthly rates)"
    and "incomeTax res = max 0 (round2 (taxBeforeDeduction res - taxFreeDeduction res))"
    and "ppkEmployee res
           = (if SalaryInput.ppkEnabled input
              then round2 (SalaryInput.brutto input * (SalaryInput.ppkPercentage input / 100)) else 0)"
    and "netto res
           = round2 (SalaryInput.brutto input - totalSocialSecurity res - healthInsurance res
                     - incomeTax res - ppkEmployee res)"
    and "SalaryFigures.truncate res = breakdown res"
proof -
  define gross where "gross = SalaryInput.brutto input"
  define pension where "pension = round2 (gross * pensionRate rates)"
  define disability where "disability = round2 (gross * disabilityRate rates)"
  define sickness where "sickness = (if SalaryInput.voluntarySocialSecurity input
                                     then round2 (gross * sicknessRate rates) else 0)"
  define totalSocial where "totalSocial = pension + disability + sickness"
  define healthBase where "healthBase = round2 (gross - totalSocial)"
  define health where "health = round2 (healthBase * healthInsuranceRate rates)"
  define incBase where "incBase = round2 (gross - totalSocial)"
  define cost where "cost = min (round2 (incBase * TaxRates.costOfIncome rates)) (maxCostOfIncome rates)"
  define tBase where "tBase = Math_round (max 0 (incBase - cost))"
  define taxBefore where "taxBefore = round2 (tBase * incomeTaxRate rates)"
  define taxFree where "taxFree = min taxBefore (taxFreeMonthly rates)"
  define tax where "tax = max 0 (round2 (taxBefore - taxFree))"
  define ppkEmp where "ppkEmp = (if SalaryInput.ppkEnabled input
                                 then round2 (gross * (SalaryInput.ppkPercentage input / 100)) else 0)"
  define net where "net = round2 (gross - totalSocial - health - tax - ppkEmp)"
  define figures where "figures =
           \<lparr> SalaryFigures.brutto = gross,
             netto = net,
             pensionContribution = pension,
             disabilityContribution = disability,
             sicknessContribution = sickness,
             totalSocialSecurity = totalSocial,
             healthInsuranceBase = healthBase,
             healthInsurance = health,
             incomeBase = incBase,
             SalaryFigures.costOfIncome = cost,
             taxBase = tBase,
             taxBeforeDeduction = taxBefore,
             taxFreeDeduction = taxFree,
             incomeTax = tax,
             ppkEmployee = ppkEmp \<rparr>"
  have eq: "res = SalaryFigures.extend figures
          \<lparr> breakdown = figures,
            description = buildSalaryDescription figures
                 (SalaryInput.voluntarySocialSecurity input) (SalaryInput.ppkEnabled input) \<rparr>"
    unfolding res_def calculateSalaryNet_def Let_def figures_def net_def ppkEmp_def tax_def
      taxFree_def taxBefore_def tBase_def cost_def incBase_def health_def healthBase_def
      totalSocial_def sickness_def disability_def pension_def gross_def rates_def
    by (rule refl)
  have sel: "SalaryFigures.brutto res = gross" "netto res = net"
    "pensionContribution res = pension" "disabilityContribution res = disability"
    "sicknessContribution res = sickness" "totalSocialSecurity res = totalSocial"
    "healthInsuranceBase res = healthBase" "healthInsurance res = health"
    "incomeBase res = incBase" "SalaryFigures.costOfIncome res = cost"
    "taxBase res = tBase" "taxBeforeDeduction res = taxBefore"
    "taxFreeDeduction res = taxFree" "incomeTax res = tax" "ppkEmployee res = ppkEmp"
    "breakdown res = figures" "SalaryFigures.truncate res = figures"
    unfolding eq figures_def by (simp_all add: SalaryFigures.defs)
  show "SalaryFigures.brutto res = SalaryInput.brutto input"
    and "pensionContribution res = round2 (SalaryInput.brutto input * pensionRate rates)"
    and "disabilityContribution res = round2 (SalaryInput.brutto input * disabilityRate rates)"
    and "sicknessContribution res
           = (if SalaryInput.voluntarySocialSecurity input
              then round2 (SalaryInput.brutto input * sicknessRate rates) else 0)"
    and "totalSocialSecurity res
           = pensionContribution res + disabilityContribution res + sicknessContribution res"
    and "healthInsuranceBase res = round2 (SalaryInput.brutto input - totalSocialSecurity res)"
    and "healthInsurance res = round2 (healthInsuranceBase res * healthInsuranceRate rates)"
    and "incomeBase res = round2 (SalaryInput.brutto input - totalSocialSecurity res)"
    and "SalaryFigures.costOfIncome res
           = min (round2 (incomeBase res * TaxRates.costOfIncome rates)) (maxCostOfIncome rates)"
    and "taxBase res = Math_round (max 0 (incomeBase res - SalaryFigures.costOfIncome res))"
    and "taxBeforeDeduction res = round2 (taxBase res * incomeTaxRate rates)"
    and "taxFreeDeduction res = min (taxBeforeDeduction res) (taxFreeMonthly rates)"
    and "incomeTax res = max 0 (round2 (taxBeforeDeduction res - taxFreeDeduction res))"
    and "ppkEmployee res
           = (if SalaryInput.ppkEnabled input
              then round2 (SalaryInput.brutto input * (SalaryInput.ppkPercentage input / 100)) else 0)"
    and "netto res
           = round2 (SalaryInput.brutto input - totalSocialSecurity res - healthInsurance res
                     - incomeTax res - ppkEmployee res)"
    and "SalaryFigures.truncate res = breakdown res"
    unfolding sel
    by (simp_all only: gross_def [symmetric] pension_def disability_def sickness_def totalSocial_def
          healthBase_def health_def incBase_def cost_def tBase_def taxBefore_def taxFree_def
          tax_def ppkEmp_def net_def)
qed

lemma salary_5000_figures:
  fixes i :: SalaryInput
  assumes "SalaryInput.brutto i = 5000"
      and "\<not> SalaryInput.voluntarySocialSecurity i"
      and "\<not> SalaryInput.ppkEnabled i"
      and "(case taxRates i of None \<Rightarrow> TAX_RATES_2024_2025 | Some r \<Rightarrow> r) = TAX_RATES_2024_2025"
  shows "pensionContribution (calculateSalaryNet i) = 488
   \<and> disabilityContribution (calculateSalaryNet i) = 75
   \<and> totalSocialSecurity (calculateSalaryNet i) = 563
   \<and> healthInsuranceBase (calculateSalaryNet i) = 4437
   \<and> healthInsurance (calculateSalaryNet i) = 39933 / 100
   \<and> SalaryFigures.costOfIncome (calculateSalaryNet i) = 250
   \<and> taxBase (calculateSalaryNet i) = Math_round (4437 - 250)
   \<and> taxBase (calculateSalaryNet i) = 4187
   \<and> taxBeforeDeduction (calculateSalaryNet i) = 50244 / 100
   \<and> taxFreeDeduction (calculateSalaryNet i) = 300
   \<and> incomeTax (calculateSalaryNet i) = 20244 / 100
   \<and> netto (calculateSalaryNet i) = 383523 / 100"
proof -
  define res where "res = calculateSalaryNet i"
  note f = calculateSalaryNet_figures [of i, folded res_def, unfolded assms(4)]
  note i = assms(1-3)
  have r: "pensionRate TAX_RATES_2024_2025 = 976 / 10000"
    "disabilityRate TAX_RATES_2024_2025 = 15 / 1000"
    "healthInsuranceRate TAX_RATES_2024_2025 = 9 / 100"
    "incomeTaxRate TAX_RATES_2024_2025 = 12 / 100"
    "taxFreeMonthly TAX_RATES_2024_2025 = 300"
    "TaxRates.costOfIncome TAX_RATES_2024_2025 = 20 / 100"
    "maxCostOfIncome TAX_RATES_2024_2025 = 250"
    by (simp_all add: TAX_RATES_2024_2025_def)
  have pension: "pensionContribution res = 488"
    by (simp add: f(2) i r round2_def Math_round_def)
  have disability: "disabilityContribution res = 75"
    by (simp add: f(3) i r round2_def Math_round_def)
  have sickness: "sicknessContribution res = 0"
    by (simp add: f(4) i)
  have social: "totalSocialSecurity res = 563"
    by (simp add: f(5) pension disability sickness)
  have hbase: "healthInsuranceBase res = 4437"
    by (simp add: f(6) i social round2_def Math_round_def)
  have health: "healthInsurance res = 39933 / 100"
    by (simp add: f(7) i r hbase round2_def Math_round_def)
  have ibase: "incomeBase res = 4437"
    by (simp add: f(8) i social round2_def Math_round_def)
  have cost: "SalaryFigures.costOfIncome res = 250"
    by (simp add: f(9) i r ibase round2_def Math_round_def)
  have tbase': "taxBase res = Math_round (4437 - 250)"
    by (simp add: f(10) ibase cost)
  have tbase: "taxBase res = 4187"
    by (simp add: tbase' Math_round_def)
  have before: "taxBeforeDeduction res = 50244 / 100"
    by (simp add: f(11) i r tbase round2_def Math_round_def)
  have free: "taxFreeDeduction res = 300"
    by (simp add: f(12) i r before)
  have tax: "incomeTax res = 20244 / 100"
    by (simp add: f(13) before free round2_def Math_round_def)
  have ppk: "ppkEmployee res = 0"
    by (simp add: f(14) i)
  have net: "netto res = 383523 / 100"
    by (simp add: f(15) i social health tax ppk round2_def Math_round_def)
  show ?thesis
    unfolding res_def [symmetric]
    by (intro conjI pension disability social hbase health cost tbase' tbase before free tax net)
qed

text \<open>
  Claim C3.  Gross 5000 with the 2024/2025 rates, no voluntary sickness insurance and no
  PPK: pension 488.00, disability 75.00, social security 563.00, health base 4437.00,
  health insurance 399.33, cost of income 250.00 (the cap), tax base
  \<open>round (4437.00 - 250.00) = 4187\<close>, tax before deduction 502.44, tax-free deduction
  300.00, income tax 202.44, net 3835.23.
\<close>

theorem salary_scenario:
  "pensionContribution (calculateSalaryNet (scenarioSalaryInput pct (Some TAX_RATES_2024_2025))) = 488
   \<and> disabilityContribution (calculateSalaryNet (scenarioSalaryInput pct (Some TAX_RATES_2024_2025))) = 75
   \<and> totalSocialSecurity (calculateSalaryNet (scenarioSalaryInput pct (Some TAX_RATES_2024_2025))) = 563
   \<and> healthInsuranceBase (calculateSalaryNet (scenarioSalaryInput pct (Some TAX_RATES_2024_2025))) = 4437
   \<and> healthInsurance (calculateSalaryNet (scenarioSalaryInput pct (Some TAX_RATES_2024_2025))) = 39933 / 100
   \<and> SalaryFigures.costOfIncome (calculateSalaryNet (scenarioSalaryInput pct (Some TAX_RATES_2024_2025))) = 250
   \<and> taxBase (calculateSalaryNet (scenarioSalaryInput pct (Some TAX_RATES_2024_2025)))
       = Math_round (4437 - 250)
   \<and> taxBase (calculateSalaryNet (scenarioSalaryInput pct (Some TAX_RATES_2024_2025))) = 4187
   \<and> taxBeforeDeduction (calculateSalaryNet (scenarioSalaryInput pct (Some TAX_RATES_2024_2025))) = 50244 / 100
   \<and> taxFreeDeduction (calculateSalaryNet (scenarioSalaryInput pct (Some TAX_RATES_2024_2025))) = 300
   \<and> incomeTax (calculateSalaryNet (scenarioSalaryInput pct (Some TAX_RATES_2024_2025))) = 20244 / 100
   \<and> netto (calculateSalaryNet (scenarioSalaryInput pct (Some TAX_RATES_2024_2025))) = 383523 / 100"
  by (rule salary_5000_figures) (simp_all add: scenarioSalaryInput_def)

lemma salary_scenario_default_rates:
  "netto (calculateSalaryNet (scenarioSalaryInput pct None)) = 383523 / 100"
  using salary_5000_figures [of "scenarioSalaryInput pct None"]
  by (simp add: scenarioSalaryInput_def)

lemma createProjectSalary_scenarioUser:
  "createProjectSalary (scenarioUser ct) (Some 5000) = Some (5000, 383523 / 100)"
proof -
  have "netto (calculateSalaryNet
                 \<lparr> SalaryInput.brutto = 5000,
                   SalaryInput.voluntarySocialSecurity = False,
                   SalaryInput.ppkEnabled = False,
                   SalaryInput.ppkPercentage = 2,
                   taxRates = Some TAX_RATES_2024_2025 \<rparr>) = 383523 / 100"
    using salary_5000_figures
            [of "\<lparr> SalaryInput.brutto = 5000,
                   SalaryInput.voluntarySocialSecurity = False,
                   SalaryInput.ppkEnabled = False,
                   SalaryInput.ppkPercentage = 2,
                   taxRates = Some TAX_RATES_2024_2025 \<rparr>"]
    by simp
  then show ?thesis
    by (simp add: createProjectSalary_def scenarioUser_def)
qed

text \<open>
  Claim C6, as the code has it.  The salary calculation takes no contract type.  The
  project-creation step computes the net salary for every user who submits a gross
  salary, by the one formula of \<open>calculateSalaryNet\<close>, and the result does not depend
  on the user's contract type.
\<close>

theorem salary_computed_for_every_contract_type:
  "createProjectSalary (user\<lparr>contractType := ct\<rparr>) salaryBrutto
     = createProjectSalary user salaryBrutto
   \<and> (\<forall>b. salaryBrutto = Some b \<and> b \<noteq> 0 \<longrightarrow>
          createProjectSalary user salaryBrutto
            = Some (b, netto (calculateSalaryNet
                                \<lparr> SalaryInput.brutto = b,
                                  SalaryInput.voluntarySocialSecurity =
                                    UserTaxSettings.voluntarySocialSecurity user,
                                  SalaryInput.ppkEnabled = UserTaxSettings.ppkEnabled user,
                                  SalaryInput.ppkPercentage = UserTaxSettings.ppkPercentage user,
                                  taxRates = Some TAX_RATES_2024_2025 \<rparr>)))"
  by (simp add: createProjectSalary_def split: option.splits)

text \<open>Users under B2B and OTHER get the figure of the civil contract.\<close>

theorem salary_computed_for_every_contract_type_witness:
  "createProjectSalary (scenarioUser B2B) (Some 5000)
     = createProjectSalary (scenarioUser CIVIL_CONTRACT) (Some 5000)
   \<and> createProjectSalary (scenarioUser ContractType.OTHER) (Some 5000)
     = createProjectSalary (scenarioUser CIVIL_CONTRACT) (Some 5000)
   \<and> createProjectSalary (scenarioUser CIVIL_CONTRACT) (Some 5000)
     = Some (5000, netto (calculateSalaryNet (scenarioSalaryInput 2 (Some TAX_RATES_2024_2025))))"
  using salary_computed_for_every_contract_type
          [where user = "scenarioUser CIVIL_CONTRACT" and ct = B2B and salaryBrutto = "Some 5000"]
        salary_computed_for_every_contract_type
          [where user = "scenarioUser CIVIL_CONTRACT" and ct = ContractType.OTHER
             and salaryBrutto = "Some 5000"]
  by (simp add: scenarioUser_def scenarioSalaryInput_def)

text \<open>
  Claim C6 as stated: for B2B and OTHER no computed net figure is returned.  For both a
  net of 3835.23 is computed from a gross of 5000.
\<close>

theorem salary_b2b_gets_net_figure:
  "createProjectSalary (scenarioUser B2B) (Some 5000) = Some (5000, 383523 / 100)
   \<and> createProjectSalary (scenarioUser ContractType.OTHER) (Some 5000) = Some (5000, 383523 / 100)"
  by (simp add: createProjectSalary_scenarioUser)


section \<open>Properties of the duplicate detector\<close>

lemma matchExisting_Some:
  assumes "matchExisting nf d e = Some (reason, sim, conf)"
  shows "(sim = 1 \<and> conf = exact \<and> reason = ''Identyczny dokument (faktura + kwota + data)''
            \<and> nf \<noteq> None \<and> nf = fingerprint e)
       \<or> (sim = 92 / 100 \<and> conf = high \<and> reason = ''Identyczna kwota i data'')
       \<or> (sim = 78 / 100 \<and> conf = medium
            \<and> reason = ''Identyczna kwota, data '' @ [CHR 0xC2, CHR 0xB1] @ ''1 dzie''
                 @ [CHR 0xC5, CHR 0x84])
       \<or> (sim = 6 / 10 \<and> conf = low \<and> reason = ''Identyczny numer faktury'')"
  using assms unfolding matchExisting_def
  by (auto split: if_splits option.splits)

lemma collectMatches_member:
  assumes "m \<in> set (collectMatches nf d es)"
  shows "\<exists>e \<in> set es. \<exists>conf. matchExisting nf d e = Some (matchReason m, similarity m, conf)"
  using assms
  by (induction es) (auto split: option.splits)

lemma getSimilarityConfidence_values:
  "getSimilarityConfidence 1 = exact" "getSimilarityConfidence (92 / 100) = high"
  "getSimilarityConfidence (78 / 100) = medium" "getSimilarityConfidence (6 / 10) = low"
  by (simp_all add: getSimilarityConfidence_def)

lemma collectMatches_similarity:
  assumes "m \<in> set (collectMatches nf d es)"
  shows "similarity m \<in> {1, 92 / 100, 78 / 100, 6 / 10}"
    and "similarity m = 1 \<or> matchReason m = ''Identyczny dokument (faktura + kwota + data)''
           \<Longrightarrow> nf \<noteq> None"
proof -
  obtain e conf where "matchExisting nf d e = Some (matchReason m, similarity m, conf)"
    using collectMatches_member [OF assms] by blast
  note c = matchExisting_Some [OF this]
  show "similarity m \<in> {1, 92 / 100, 78 / 100, 6 / 10}" using c by auto
  show "nf \<noteq> None"
    if "similarity m = 1 \<or> matchReason m = ''Identyczny dokument (faktura + kwota + data)''"
    using c that by auto
qed

lemma sortBySimilarity_sorted:
  "sorted_wrt (\<lambda>a b. similarity a \<ge> similarity b) (sortBySimilarity ms)"
proof -
  have "sorted (map (\<lambda>m. - similarity m) (sortBySimilarity ms))"
    unfolding sortBySimilarity_def by (rule sorted_sort_key)
  then show ?thesis
    by (simp add: sorted_wrt_map sorted_wrt_iff_nth_less)
qed

lemma sortBySimilarity_set: "set (sortBySimilarity ms) = set ms"
  by (simp add: sortBySimilarity_def)

lemma sortBySimilarity_length: "length (sortBySimilarity ms) = length ms"
  by (simp add: sortBySimilarity_def)

text \<open>The sort is stable: matches of equal similarity keep the order of the loop.\<close>

lemma sortBySimilarity_stable:
  "filter (\<lambda>m. similarity m = k) (sortBySimilarity ms) = filter (\<lambda>m. similarity m = k) ms"
  using sort_key_stable [of "\<lambda>m. - similarity m" "- k" ms]
  by (simp add: sortBySimilarity_def)

lemma detectDuplicateDocument_matches:
  "matchedDocuments (detectDuplicateDocument sha256 newDoc existingDocs)
     = sortBySimilarity (collectMatches (newFingerprintOf sha256 newDoc) newDoc existingDocs)"
  by (cases existingDocs)
     (simp_all add: detectDuplicateDocument_def Let_def sortBySimilarity_def split: list.splits)

lemma detectDuplicateDocument_verdict:
  "case matchedDocuments (detectDuplicateDocument sha256 newDoc existingDocs) of
     [] \<Rightarrow> \<not> isDuplicate (detectDuplicateDocument sha256 newDoc existingDocs)
           \<and> confidence (detectDuplicateDocument sha256 newDoc existingDocs) = None
           \<and> suggestedAction (detectDuplicateDocument sha256 newDoc existingDocs) = None
   | best # rest \<Rightarrow>
       isDuplicate (detectDuplicateDocument sha256 newDoc existingDocs)
       \<and> confidence (detectDuplicateDocument sha256 newDoc existingDocs)
           = Some (getSimilarityConfidence (similarity best))
       \<and> suggestedAction (detectDuplicateDocument sha256 newDoc existingDocs)
           = Some (case getSimilarityConfidence (similarity best) of
                     exact \<Rightarrow> merge | high \<Rightarrow> merge | medium \<Rightarrow> review | low \<Rightarrow> add_new)"
  by (cases existingDocs)
     (auto simp add: detectDuplicateDocument_def Let_def split: list.splits DuplicateConfidence.splits)

text \<open>
  Claim C7, as the code has it.  The returned matches are the matches of the loop sorted
  by descending similarity, each with one of the four similarities of the strategies.
  Without a match the result is not a duplicate and both its confidence and its
  suggested action are absent.  With a match, the confidence is that of the first, best
  match, and the action follows it: exact or high gives \<open>merge\<close>, medium gives
  \<open>review\<close>, low gives \<open>add_new\<close>.
\<close>

theorem matches_sorted_and_action:
  "let r = detectDuplicateDocument sha256 newDoc existingDocs in
     sorted_wrt (\<lambda>a b. similarity a \<ge> similarity b) (matchedDocuments r)
     \<and> set (matchedDocuments r)
         = set (collectMatches (newFingerprintOf sha256 newDoc) newDoc existingDocs)
     \<and> (\<forall>m \<in> set (matchedDocuments r). similarity m \<in> {1, 92 / 100, 78 / 100, 6 / 10})
     \<and> (matchedDocuments r = [] \<longrightarrow>
           \<not> isDuplicate r \<and> confidence r = None \<and> suggestedAction r = None)
     \<and> (\<forall>best rest. matchedDocuments r = best # rest \<longrightarrow>
           isDuplicate r
           \<and> (\<forall>m \<in> set rest. similarity m \<le> similarity best)
           \<and> confidence r = Some (getSimilarityConfidence (similarity best))
           \<and> (confidence r = Some exact \<or> confidence r = Some high
                \<longrightarrow> suggestedAction r = Some merge)
           \<and> (confidence r = Some medium \<longrightarrow> suggestedAction r = Some review)
           \<and> (confidence r = Some low \<longrightarrow> suggestedAction r = Some add_new))"
proof -
  define r where "r = detectDuplicateDocument sha256 newDoc existingDocs"
  have m: "matchedDocuments r
             = sortBySimilarity (collectMatches (newFingerprintOf sha256 newDoc) newDoc existingDocs)"
    unfolding r_def by (rule detectDuplicateDocument_matches)
  have s: "sorted_wrt (\<lambda>a b. similarity a \<ge> similarity b) (matchedDocuments r)"
    unfolding m by (rule sortBySimilarity_sorted)
  have st: "set (matchedDocuments r)
         = set (collectMatches (newFingerprintOf sha256 newDoc) newDoc existingDocs)"
    unfolding m by (rule sortBySimilarity_set)
  have v: "\<forall>m \<in> set (matchedDocuments r). similarity m \<in> {1, 92 / 100, 78 / 100, 6 / 10}"
    unfolding st using collectMatches_similarity(1) by blast
  note verdict = detectDuplicateDocument_verdict [of sha256 newDoc existingDocs, folded r_def]
  have e: "matchedDocuments r = [] \<longrightarrow>
           \<not> isDuplicate r \<and> confidence r = None \<and> suggestedAction r = None"
    using verdict by (auto split: list.splits)
  have b: "isDuplicate r
           \<and> (\<forall>m \<in> set rest. similarity m \<le> similarity best)
           \<and> confidence r = Some (getSimilarityConfidence (similarity best))
           \<and> (confidence r = Some exact \<or> confidence r = Some high
                \<longrightarrow> suggestedAction r = Some merge)
           \<and> (confidence r = Some medium \<longrightarrow> suggestedAction r = Some review)
           \<and> (confidence r = Some low \<longrightarrow> suggestedAction r = Some add_new)"
    if "matchedDocuments r = best # rest" for best rest
  proof -
    have "\<forall>m \<in> set rest. similarity m \<le> similarity best"
      using s unfolding that by simp
    moreover have "isDuplicate r \<and> confidence r = Some (getSimilarityConfidence (similarity best))
        \<and> suggestedAction r
            = Some (case getSimilarityConfidence (similarity best) of
                      exact \<Rightarrow> merge | high \<Rightarrow> merge | medium \<Rightarrow> review | low \<Rightarrow> add_new)"
      using verdict unfolding that by simp
    ultimately show ?thesis
      by (auto split: DuplicateConfidence.splits)
  qed
  show ?thesis
    unfolding Let_def r_def [symmetric] using s st v e b by blast
qed

lemma scenario_dates:
  "normalizeDate marchFirst = ''2024-03-01'' \<and> normalizeDate marchSecond = ''2024-03-02''"
  by code_simp

lemmas detect_eval =
  detectDuplicateDocument_def matchExisting_def newFingerprintOf_def amountsMatch_def
  datesWithinDays_def sortBySimilarity_def scenarioReceipt_def storedReceipt_def Let_def

lemma scenario_two_matches:
  "map (\<lambda>m. (DuplicateMatch.id' m, similarity m))
     (matchedDocuments
        (detectDuplicateDocument id (scenarioReceipt None (241 / 2) marchFirst)
           [storedReceipt ''d1'' None None (241 / 2) marchSecond,
            storedReceipt ''d2'' None None (241 / 2) marchFirst]))
   = [(''d2'', 92 / 100), (''d1'', 78 / 100)]"
  by (simp add: detect_eval scenario_dates) (simp add: marchFirst_def marchSecond_def)

lemma scenario_one_match:
  "map (\<lambda>m. (DuplicateMatch.id' m, similarity m))
     (matchedDocuments
        (detectDuplicateDocument id (scenarioReceipt None (241 / 2) marchFirst)
           [storedReceipt ''d1'' None None (241 / 2) marchSecond]))
   = [(''d1'', 78 / 100)]"
  by (simp add: detect_eval scenario_dates) (simp add: marchFirst_def marchSecond_def)

lemma scenario_no_match:
  "matchedDocuments
     (detectDuplicateDocument id (scenarioReceipt None (241 / 2) marchFirst)
        [storedReceipt ''d3'' None None 99 marchFirst]) = []"
  by (simp add: detect_eval)

text \<open>
  Two receipts of 120.50, one dated the same day and one the day after: the same-day
  match comes first and decides for \<open>merge\<close>; the next-day match alone gives \<open>review\<close>.
\<close>

theorem matches_sorted_and_action_witness:
  "map similarity
     (matchedDocuments
        (detectDuplicateDocument id (scenarioReceipt None (241 / 2) marchFirst)
           [storedReceipt ''d1'' None None (241 / 2) marchSecond,
            storedReceipt ''d2'' None None (241 / 2) marchFirst])) = [92 / 100, 78 / 100]
   \<and> confidence
        (detectDuplicateDocument id (scenarioReceipt None (241 / 2) marchFirst)
           [storedReceipt ''d1'' None None (241 / 2) marchSecond,
            storedReceipt ''d2'' None None (241 / 2) marchFirst]) = Some high
   \<and> suggestedAction
        (detectDuplicateDocument id (scenarioReceipt None (241 / 2) marchFirst)
           [storedReceipt ''d1'' None None (241 / 2) marchSecond,
            storedReceipt ''d2'' None None (241 / 2) marchFirst]) = Some merge
   \<and> confidence
        (detectDuplicateDocument id (scenarioReceipt None (241 / 2) marchFirst)
           [storedReceipt ''d1'' None None (241 / 2) marchSecond]) = Some medium
   \<and> suggestedAction
        (detectDuplicateDocument id (scenarioReceipt None (241 / 2) marchFirst)
           [storedReceipt ''d1'' None None (241 / 2) marchSecond]) = Some review"
proof -
  define r2 where "r2 = detectDuplicateDocument id (scenarioReceipt None (241 / 2) marchFirst)
           [storedReceipt ''d1'' None None (241 / 2) marchSecond,
            storedReceipt ''d2'' None None (241 / 2) marchFirst]"
  define r1 where "r1 = detectDuplicateDocument id (scenarioReceipt None (241 / 2) marchFirst)
           [storedReceipt ''d1'' None None (241 / 2) marchSecond]"
  have s2: "map similarity (matchedDocuments r2) = [92 / 100, 78 / 100]"
    using arg_cong [OF scenario_two_matches, of "map snd"] by (simp add: r2_def comp_def)
  have s1: "map similarity (matchedDocuments r1) = [78 / 100]"
    using arg_cong [OF scenario_one_match, of "map snd"] by (simp add: r1_def comp_def)
  obtain b2 rest2 where m2: "matchedDocuments r2 = b2 # rest2" "similarity b2 = 92 / 100"
    using s2 by (auto simp: map_eq_Cons_conv)
  obtain b1 rest1 where m1: "matchedDocuments r1 = b1 # rest1" "similarity b1 = 78 / 100"
    using s1 by (auto simp: map_eq_Cons_conv)
  have "confidence r2 = Some high \<and> suggestedAction r2 = Some merge"
    using matches_sorted_and_action
            [of id "scenarioReceipt None (241 / 2) marchFirst"
                "[storedReceipt ''d1'' None None (241 / 2) marchSecond,
                  storedReceipt ''d2'' None None (241 / 2) marchFirst]", folded r2_def] m2
    by (simp add: Let_def getSimilarityConfidence_def)
  moreover have "confidence r1 = Some medium \<and> suggestedAction r1 = Some review"
    using matches_sorted_and_action
            [of id "scenarioReceipt None (241 / 2) marchFirst"
                "[storedReceipt ''d1'' None None (241 / 2) marchSecond]", folded r1_def] m1
    by (simp add: Let_def getSimilarityConfidence_def)
  ultimately show ?thesis
    using s2 unfolding r1_def r2_def by blast
qed

text \<open>
  Claim C7 as stated gives \<open>add_new\<close> when nothing matches.  With a stored document that
  does not match, and with no stored document at all, the suggested action is absent.
\<close>

theorem no_match_suggests_nothing:
  "suggestedAction
     (detectDuplicateDocument id (scenarioReceipt None (241 / 2) marchFirst)
        [storedReceipt ''d3'' None None 99 marchFirst]) \<noteq> Some add_new
   \<and> suggestedAction
     (detectDuplicateDocument id (scenarioReceipt None (241 / 2) marchFirst) []) \<noteq> Some add_new"
proof -
  have "suggestedAction
     (detectDuplicateDocument id (scenarioReceipt None (241 / 2) marchFirst)
        [storedReceipt ''d3'' None None 99 marchFirst]) = None"
    using detectDuplicateDocument_verdict
            [of id "scenarioReceipt None (241 / 2) marchFirst"
                "[storedReceipt ''d3'' None None 99 marchFirst]"]
    unfolding scenario_no_match by simp
  moreover have "suggestedAction
     (detectDuplicateDocument id (scenarioReceipt None (241 / 2) marchFirst) []) = None"
    by (simp add: detectDuplicateDocument_def)
  ultimately show ?thesis by simp
qed

lemma newFingerprintOf_Some:
  "newFingerprintOf sha256 newDoc \<noteq> None \<longleftrightarrow>
     (\<exists>s a t. DocumentFingerprint.invoiceNumber newDoc = Some s \<and> s \<noteq> []
        \<and> DocumentFingerprint.amount newDoc = Some a \<and> a \<noteq> 0
        \<and> DocumentFingerprint.date newDoc = Some t)"
  by (auto simp: newFingerprintOf_def split: option.splits)

text \<open>
  Claim C10.  A fingerprint of the new document is generated exactly when its invoice
  number is a non-empty string, its amount is present and not zero, and its date is
  present; only then can a returned match come from the exact-fingerprint strategy.  A
  new document with amount 0 or with the empty string as invoice number gets no
  fingerprint, and each of its matches has the similarity of one of the other three
  strategies.
\<close>

theorem exact_fingerprint_needs_truthy_fields:
  "(newFingerprintOf sha256 newDoc \<noteq> None \<longleftrightarrow>
      (\<exists>s a t. DocumentFingerprint.invoiceNumber newDoc = Some s \<and> s \<noteq> []
         \<and> DocumentFingerprint.amount newDoc = Some a \<and> a \<noteq> 0
         \<and> DocumentFingerprint.date newDoc = Some t))
   \<and> (\<forall>m \<in> set (matchedDocuments (detectDuplicateDocument sha256 newDoc existingDocs)).
         similarity m = 1 \<or> matchReason m = ''Identyczny dokument (faktura + kwota + data)''
         \<longrightarrow> (\<exists>s a t. DocumentFingerprint.invoiceNumber newDoc = Some s \<and> s \<noteq> []
                \<and> DocumentFingerprint.amount newDoc = Some a \<and> a \<noteq> 0
                \<and> DocumentFingerprint.date newDoc = Some t))
   \<and> (DocumentFingerprint.amount newDoc = Some 0
        \<or> DocumentFingerprint.invoiceNumber newDoc = Some []
       \<longrightarrow> newFingerprintOf sha256 newDoc = None
           \<and> (\<forall>m \<in> set (matchedDocuments (detectDuplicateDocument sha256 newDoc existingDocs)).
                 similarity m \<in> {92 / 100, 78 / 100, 6 / 10}
                 \<and> matchReason m \<noteq> ''Identyczny dokument (faktura + kwota + data)''))"
proof -
  let ?ms = "matchedDocuments (detectDuplicateDocument sha256 newDoc existingDocs)"
  have st: "set ?ms = set (collectMatches (newFingerprintOf sha256 newDoc) newDoc existingDocs)"
    by (simp add: detectDuplicateDocument_matches sortBySimilarity_set)
  have a: "\<forall>m \<in> set ?ms.
         similarity m = 1 \<or> matchReason m = ''Identyczny dokument (faktura + kwota + data)''
         \<longrightarrow> newFingerprintOf sha256 newDoc \<noteq> None"
    unfolding st using collectMatches_similarity(2) by blast
  have b: "\<forall>m \<in> set ?ms. similarity m \<in> {1, 92 / 100, 78 / 100, 6 / 10}"
    unfolding st using collectMatches_similarity(1) by blast
  have c: "newFingerprintOf sha256 newDoc = None"
    if "DocumentFingerprint.amount newDoc = Some 0
        \<or> DocumentFingerprint.invoiceNumber newDoc = Some []"
    using that by (auto simp: newFingerprintOf_def)
  have d: "\<forall>m \<in> set ?ms. similarity m \<in> {92 / 100, 78 / 100, 6 / 10}
                 \<and> matchReason m \<noteq> ''Identyczny dokument (faktura + kwota + data)''"
    if "newFingerprintOf sha256 newDoc = None"
    using a b that by auto
  show ?thesis
  proof (intro conjI impI)
    show "newFingerprintOf sha256 newDoc \<noteq> None \<longleftrightarrow>
      (\<exists>s a t. DocumentFingerprint.invoiceNumber newDoc = Some s \<and> s \<noteq> []
         \<and> DocumentFingerprint.amount newDoc = Some a \<and> a \<noteq> 0
         \<and> DocumentFingerprint.date newDoc = Some t)"
      by (rule newFingerprintOf_Some)
    show "\<forall>m \<in> set ?ms.
         similarity m = 1 \<or> matchReason m = ''Identyczny dokument (faktura + kwota + data)''
         \<longrightarrow> (\<exists>s a t. DocumentFingerprint.invoiceNumber newDoc = Some s \<and> s \<noteq> []
                \<and> DocumentFingerprint.amount newDoc = Some a \<and> a \<noteq> 0
                \<and> DocumentFingerprint.date newDoc = Some t)"
      using a unfolding newFingerprintOf_Some .
  next
    assume h: "DocumentFingerprint.amount newDoc = Some 0
        \<or> DocumentFingerprint.invoiceNumber newDoc = Some []"
    show "newFingerprintOf sha256 newDoc = None" using h by (rule c)
    then show "\<forall>m \<in> set ?ms. similarity m \<in> {92 / 100, 78 / 100, 6 / 10}
                 \<and> matchReason m \<noteq> ''Identyczny dokument (faktura + kwota + data)''"
      by (rule d)
  qed
qed

lemma scenario_zero_amount:
  "map similarity
     (matchedDocuments
        (detectDuplicateDocument id (scenarioReceipt (Some ''FV/1'') 0 marchFirst)
           [storedReceipt ''d4''
              (Some (generateDocumentFingerprint id (scenarioReceipt (Some ''FV/1'') 0 marchFirst)))
              (Some ''FV/1'') 0 marchFirst])) = [92 / 100]"
  by (simp add: detect_eval)

lemma scenario_empty_invoice:
  "map similarity
     (matchedDocuments
        (detectDuplicateDocument id (scenarioReceipt (Some []) (241 / 2) marchFirst)
           [storedReceipt ''d5''
              (Some (generateDocumentFingerprint id (scenarioReceipt (Some []) (241 / 2) marchFirst)))
              (Some []) (241 / 2) marchFirst])) = [92 / 100]"
  by (simp add: detect_eval)

text \<open>With the three fields truthy the first strategy does fire, whatever the digest.\<close>

lemma scenario_exact_match:
  "map similarity
     (matchedDocuments
        (detectDuplicateDocument (\<lambda>s. ''digest'') (scenarioReceipt (Some ''FV/1'') (241 / 2) marchFirst)
           [storedReceipt ''d6'' (Some ''digest'') None 50 marchSecond])) = [1]"
  by (simp add: detect_eval generateDocumentFingerprint_def)

text \<open>
  A new document with amount 0, and one with an empty invoice number, each against a
  stored copy of itself that carries the digest of its fields: no fingerprint, and the
  match is the one by amount and date.
\<close>

theorem exact_fingerprint_needs_truthy_fields_witness:
  "newFingerprintOf id (scenarioReceipt (Some ''FV/1'') 0 marchFirst) = None
   \<and> map similarity
     (matchedDocuments
        (detectDuplicateDocument id (scenarioReceipt (Some ''FV/1'') 0 marchFirst)
           [storedReceipt ''d4''
              (Some (generateDocumentFingerprint id (scenarioReceipt (Some ''FV/1'') 0 marchFirst)))
              (Some ''FV/1'') 0 marchFirst])) = [92 / 100]
   \<and> newFingerprintOf id (scenarioReceipt (Some []) (241 / 2) marchFirst) = None
   \<and> map similarity
     (matchedDocuments
        (detectDuplicateDocument id (scenarioReceipt (Some []) (241 / 2) marchFirst)
           [storedReceipt ''d5''
              (Some (generateDocumentFingerprint id (scenarioReceipt (Some []) (241 / 2) marchFirst)))
              (Some []) (241 / 2) marchFirst])) = [92 / 100]
   \<and> newFingerprintOf id (scenarioReceipt (Some ''FV/1'') (241 / 2) marchFirst) \<noteq> None"
proof -
  have z: "DocumentFingerprint.amount (scenarioReceipt (Some ''FV/1'') 0 marchFirst) = Some 0"
    and e: "DocumentFingerprint.invoiceNumber (scenarioReceipt (Some []) (241 / 2) marchFirst) = Some []"
    and f: "\<exists>s a t. DocumentFingerprint.invoiceNumber
                       (scenarioReceipt (Some ''FV/1'') (241 / 2) marchFirst) = Some s \<and> s \<noteq> []
              \<and> DocumentFingerprint.amount
                    (scenarioReceipt (Some ''FV/1'') (241 / 2) marchFirst) = Some a \<and> a \<noteq> 0
              \<and> DocumentFingerprint.date
                    (scenarioReceipt (Some ''FV/1'') (241 / 2) marchFirst) = Some t"
    by (simp_all add: scenarioReceipt_def exI [of _ "241 / 2"])
  have "newFingerprintOf id (scenarioReceipt (Some ''FV/1'') 0 marchFirst) = None"
    using exact_fingerprint_needs_truthy_fields
            [of id "scenarioReceipt (Some ''FV/1'') 0 marchFirst" "[]"] z by blast
  moreover have "newFingerprintOf id (scenarioReceipt (Some []) (241 / 2) marchFirst) = None"
    using exact_fingerprint_needs_truthy_fields
            [of id "scenarioReceipt (Some []) (241 / 2) marchFirst" "[]"] e by blast
  moreover have "newFingerprintOf id (scenarioReceipt (Some ''FV/1'') (241 / 2) marchFirst) \<noteq> None"
    using exact_fingerprint_needs_truthy_fields
            [of id "scenarioReceipt (Some ''FV/1'') (241 / 2) marchFirst" "[]"] f by blast
  ultimately show ?thesis
    using scenario_zero_amount scenario_empty_invoice by (intro conjI)
qed


end
